theory Spec2Isabelle
  imports Main "HOL-Library.Word"
begin

section \<open>Go values used by the domain and record operations\<close>

text \<open>
  \<^verbatim>\<open>json.Number\<close> is a Go string type (\<^verbatim>\<open>type Number string\<close>); its method
  \<^verbatim>\<open>String()\<close> and the conversion \<^verbatim>\<open>string(n)\<close> both give the text back, so a
  \<^verbatim>\<open>json.Number\<close> is a \<open>string\<close> here. A Go slice is a list that may be \<^verbatim>\<open>nil\<close>:
  \<open>None\<close> is the nil slice, \<open>Some []\<close> an empty slice that is not nil. A pointer
  \<^verbatim>\<open>*Response\<close> is an option. A Go \<^verbatim>\<open>error\<close> is the text its \<^verbatim>\<open>Error()\<close> method
  gives; \<open>None\<close> of type \<open>error option\<close> is the nil error.
\<close>

type_synonym Number = string

type_synonym 'a slice = "'a list option"

datatype error = Error string

text \<open>
  \<^verbatim>\<open>url.Values\<close> is \<^verbatim>\<open>map[string][]string\<close>. Indexing a Go map at a missing key
  gives the zero value, here the nil slice, to which \<^verbatim>\<open>append\<close> adds as to an empty one.
  \<^verbatim>\<open>Set\<close> is \<^verbatim>\<open>v[key] = []string{value}\<close> and \<^verbatim>\<open>Add\<close> is
  \<^verbatim>\<open>v[key] = append(v[key], value)\<close>.
\<close>

type_synonym Values = "string \<Rightarrow> string list option"

definition Values_index :: "Values \<Rightarrow> string \<Rightarrow> string list" where
  "Values_index v key = (case v key of None \<Rightarrow> [] | Some vs \<Rightarrow> vs)"

definition Values_Set :: "Values \<Rightarrow> string \<Rightarrow> string \<Rightarrow> Values" where
  "Values_Set v key val = v(key \<mapsto> [val])"

definition Values_Add :: "Values \<Rightarrow> string \<Rightarrow> string \<Rightarrow> Values" where
  "Values_Add v key val = v(key \<mapsto> Values_index v key @ [val])"

text \<open>
  \<^verbatim>\<open>strconv.Itoa\<close> writes a Go \<^verbatim>\<open>int\<close> in decimal, with a leading minus sign for a
  negative number. A Go \<^verbatim>\<open>int\<close> is a 64-bit two's complement word on the usual
  platforms; \<open>Itoa\<close> works on the integer the word stands for.
\<close>

type_synonym go_int = "64 word"

function nat_digits :: "nat \<Rightarrow> string" where
  "nat_digits n =
     (if n < 10 then [''0123456789'' ! n]
      else nat_digits (n div 10) @ [''0123456789'' ! (n mod 10)])"
  by pat_completeness auto
termination
  by (relation "measure id") auto

declare nat_digits.simps [simp del]

definition Itoa :: "go_int \<Rightarrow> string" where
  "Itoa i = (if sint i < 0 then CHR ''-'' # nat_digits (nat (- sint i))
             else nat_digits (nat (sint i)))"

text \<open>Reading a decimal numeral back, to say what "decimal string form" means.\<close>

definition digit_val :: "char \<Rightarrow> nat" where
  "digit_val c = of_char c - 48"

definition decimal_val :: "string \<Rightarrow> nat" where
  "decimal_val s = foldl (\<lambda>a c. 10 * a + digit_val c) 0 s"

definition Atoi :: "string \<Rightarrow> int" where
  "Atoi s = (case s of
               [] \<Rightarrow> 0
             | c # cs \<Rightarrow> if c = CHR ''-'' then - int (decimal_val cs) else int (decimal_val s))"

section \<open>The data model\<close>

text \<open>
  Modelled from the spec: the type \<^verbatim>\<open>Status\<close> is declared outside the source
  at hand; the spec gives it a code (string, success sentinel "1") and a message (string),
  the two fields the operations read.
\<close>

record Status =
  Code :: string
  Message :: string

record DomainInfo =
  DomainTotal :: Number
  AllTotal :: Number
  MineTotal :: Number
  ShareTotal :: Number
  VipTotal :: Number
  IsMarkTotal :: Number
  PauseTotal :: Number
  ErrorTotal :: Number
  LockTotal :: Number
  SpamTotal :: Number
  VipExpire :: Number
  ShareOutTotal :: Number

record Domain =
  ID :: Number
  Name :: string
  PunyCode :: string
  Grade :: string
  GradeTitle :: string
  Status :: string
  ExtStatus :: string
  Records :: string
  GroupID :: Number
  IsMark :: string
  Remark :: string
  IsVIP :: string
  SearchenginePush :: string
  UserID :: string
  CreatedOn :: string
  UpdatedOn :: string
  TTL :: string
  CNameSpeedUp :: string
  Owner :: string
  AuthToAnquanBao :: bool

record domainListWrapper =
  Status :: Status
  Info :: DomainInfo
  Domains :: "Domain slice"

record domainWrapper =
  Status :: Status
  Info :: DomainInfo
  Domain :: Domain

record domainLogWrapper =
  Status :: Status
  Log :: "string slice"

record Record =
  ID :: Number
  Name :: string
  Line :: string
  LineID :: string
  Type :: string
  TTL :: string
  Value :: string
  MX :: string
  Enabled :: string
  Status :: string
  MonitorStatus :: string
  Remark :: string
  UpdateOn :: string
  UseAQB :: string

record recordsWrapper =
  Status :: Status
  Info :: DomainInfo
  Records :: "Record slice"

record recordWrapper =
  Status :: Status
  Info :: DomainInfo
  Record :: Record

text \<open>
  The types \<^verbatim>\<open>CommonParams\<close>, \<^verbatim>\<open>Client\<close> and \<^verbatim>\<open>Response\<close> are declared outside
  the source at hand. \<^verbatim>\<open>CommonParams\<close> is the type variable \<open>'c\<close> and \<^verbatim>\<open>Response\<close>
  the type variable \<open>'r\<close>; of a \<^verbatim>\<open>Client\<close> the operations read the field
  \<^verbatim>\<open>CommonParams\<close> only. The pointers \<^verbatim>\<open>s.client\<close> and \<^verbatim>\<open>request\<close> are taken
  to be non-nil, where Go would panic at the first field access.
\<close>

record 'c Client =
  CommonParams :: 'c

record 'c DomainsService =
  client :: "'c Client"

record 'c RecordsService =
  client :: "'c Client"

record 'c DomainLogRequest =
  CommonParams :: 'c
  DomainId :: string
  Domain :: string
  Offset :: go_int
  Length :: go_int

record 'c DomainListRequest =
  CommonParams :: 'c
  Type :: string
  Offset :: string
  Length :: string
  GroupId :: string
  Keyword :: string

record 'c RecordListRequest =
  CommonParams :: 'c
  DomainId :: string
  Domain :: string
  Offset :: string
  Length :: string
  SubDomain :: string
  RecordType :: string
  RecordLine :: string
  RecordLIneId :: string
  KeyWord :: string

subsection \<open>Zero values\<close>

definition Status_zero :: Status where
  "Status_zero = \<lparr>Code = '''', Message = ''''\<rparr>"

definition DomainInfo_zero :: DomainInfo where
  "DomainInfo_zero =
     \<lparr>DomainTotal = '''', AllTotal = '''', MineTotal = '''', ShareTotal = '''',
      VipTotal = '''', IsMarkTotal = '''', PauseTotal = '''', ErrorTotal = '''',
      LockTotal = '''', SpamTotal = '''', VipExpire = '''', ShareOutTotal = ''''\<rparr>"

definition Domain_zero :: Domain where
  "Domain_zero =
     \<lparr>Domain.ID = '''', Domain.Name = '''', PunyCode = '''', Grade = '''', GradeTitle = '''',
      Domain.Status = '''', ExtStatus = '''', Domain.Records = '''', GroupID = '''',
      IsMark = '''', Domain.Remark = '''', IsVIP = '''', SearchenginePush = '''',
      UserID = '''', CreatedOn = '''', UpdatedOn = '''', Domain.TTL = '''',
      CNameSpeedUp = '''', Owner = '''', AuthToAnquanBao = False\<rparr>"

definition Record_zero :: Record where
  "Record_zero =
     \<lparr>Record.ID = '''', Record.Name = '''', Line = '''', LineID = '''', Record.Type = '''',
      Record.TTL = '''', Value = '''', MX = '''', Enabled = '''', Record.Status = '''',
      MonitorStatus = '''', Record.Remark = '''', UpdateOn = '''', UseAQB = ''''\<rparr>"

definition domainListWrapper_zero :: domainListWrapper where
  "domainListWrapper_zero =
     \<lparr>domainListWrapper.Status = Status_zero, domainListWrapper.Info = DomainInfo_zero,
      Domains = None\<rparr>"

definition domainWrapper_zero :: domainWrapper where
  "domainWrapper_zero =
     \<lparr>domainWrapper.Status = Status_zero, domainWrapper.Info = DomainInfo_zero,
      domainWrapper.Domain = Domain_zero\<rparr>"

definition domainLogWrapper_zero :: domainLogWrapper where
  "domainLogWrapper_zero = \<lparr>domainLogWrapper.Status = Status_zero, Log = None\<rparr>"

definition recordsWrapper_zero :: recordsWrapper where
  "recordsWrapper_zero =
     \<lparr>recordsWrapper.Status = Status_zero, recordsWrapper.Info = DomainInfo_zero,
      recordsWrapper.Records = None\<rparr>"

definition recordWrapper_zero :: recordWrapper where
  "recordWrapper_zero =
     \<lparr>recordWrapper.Status = Status_zero, recordWrapper.Info = DomainInfo_zero,
      Record = Record_zero\<rparr>"

section \<open>The transport\<close>

text \<open>
  The method \<^verbatim>\<open>Client.post(method, payload, target)\<close> and the method
  \<^verbatim>\<open>CommonParams.toPayLoad()\<close> are defined outside the source at hand, so every
  operation takes them as parameters. \<open>toPayLoad\<close> gives the payload of the common
  parameters. \<open>post\<close> receives the method name, the payload and the zero-valued envelope
  behind the pointer \<^verbatim>\<open>target\<close>, and gives the envelope as the call left it, the
  response descriptor and the error. Nothing is assumed of either.
\<close>

type_synonym ('w, 'r) post = "string \<Rightarrow> Values \<Rightarrow> 'w \<Rightarrow> 'w \<times> 'r option \<times> error option"

definition methodDomainList :: string where "methodDomainList = ''Domain.List''"
definition methodDomainCreate :: string where "methodDomainCreate = ''Domain.Create''"
definition methodDomainInfo :: string where "methodDomainInfo = ''Domain.Info''"
definition methodDomainRemove :: string where "methodDomainRemove = ''Domain.Remove''"
definition methodDomainLog :: string where "methodDomainLog = ''Domain.Log''"

definition methodRecordList :: string where "methodRecordList = ''Record.List''"
definition methodRecordCreate :: string where "methodRecordCreate = ''Record.Create''"
definition methodRecordInfo :: string where "methodRecordInfo = ''Record.Info''"
definition methodRecordRemove :: string where "methodRecordRemove = ''Record.Remove''"
definition methodRecordModify :: string where "methodRecordModify = ''Record.Modify''"
definition methodRecordRemark :: string where "methodRecordRemark = ''Record.Remark''"

section \<open>Request builders\<close>

text \<open>\<^verbatim>\<open>DomainLogRequest.toPayLoad\<close> (lines 93 to 110).\<close>

definition DomainLogRequest_toPayLoad :: "('c \<Rightarrow> Values) \<Rightarrow> 'c DomainLogRequest \<Rightarrow> Values" where
  "DomainLogRequest_toPayLoad toPayLoad c =
     (let p = toPayLoad (DomainLogRequest.CommonParams c);
          p = (if DomainLogRequest.DomainId c \<noteq> ''''
               then Values_Set p ''domain_id'' (DomainLogRequest.DomainId c)
               else Values_Set p ''domain'' (DomainLogRequest.Domain c));
          p = (if DomainLogRequest.Offset c \<noteq> 0
               then Values_Set p ''offset'' (Itoa (DomainLogRequest.Offset c)) else p);
          p = (if DomainLogRequest.Length c \<noteq> 0
               then Values_Set p ''length'' (Itoa (DomainLogRequest.Length c)) else p)
      in p)"

text \<open>\<^verbatim>\<open>DomainListRequest.toPayLOad\<close> (lines 121 to 141).\<close>

definition DomainListRequest_toPayLOad :: "('c \<Rightarrow> Values) \<Rightarrow> 'c DomainListRequest \<Rightarrow> Values" where
  "DomainListRequest_toPayLOad toPayLoad c =
     (let p = toPayLoad (DomainListRequest.CommonParams c);
          p = (if DomainListRequest.Type c \<noteq> ''''
               then Values_Set p ''type'' (DomainListRequest.Type c) else p);
          p = (if DomainListRequest.Offset c \<noteq> ''''
               then Values_Set p ''offset'' (DomainListRequest.Offset c) else p);
          p = (if DomainListRequest.Length c \<noteq> ''''
               then Values_Set p ''length'' (DomainListRequest.Length c) else p);
          p = (if DomainListRequest.GroupId c \<noteq> ''''
               then Values_Set p ''group_id'' (DomainListRequest.GroupId c) else p);
          p = (if DomainListRequest.Keyword c \<noteq> ''''
               then Values_Set p ''keyword'' (DomainListRequest.Keyword c) else p)
      in p)"

text \<open>\<^verbatim>\<open>RecordListRequest.toPayLOad\<close> (lines 296 to 326).\<close>

definition RecordListRequest_toPayLOad :: "('c \<Rightarrow> Values) \<Rightarrow> 'c RecordListRequest \<Rightarrow> Values" where
  "RecordListRequest_toPayLOad toPayLoad r =
     (let p = toPayLoad (RecordListRequest.CommonParams r);
          p = (if RecordListRequest.DomainId r \<noteq> ''''
               then Values_Add p ''domain_id'' (RecordListRequest.DomainId r) else p);
          p = (if RecordListRequest.Domain r \<noteq> ''''
               then Values_Add p ''domain'' (RecordListRequest.Domain r) else p);
          p = (if RecordListRequest.Offset r \<noteq> ''''
               then Values_Add p ''offset'' (RecordListRequest.Offset r) else p);
          p = (if RecordListRequest.Length r \<noteq> ''''
               then Values_Add p ''length'' (RecordListRequest.Length r) else p);
          p = (if SubDomain r \<noteq> '''' then Values_Add p ''sub_domain'' (SubDomain r) else p);
          p = (if RecordType r \<noteq> '''' then Values_Add p ''record_type'' (RecordType r) else p);
          p = (if RecordLine r \<noteq> '''' then Values_Add p ''record_line'' (RecordLine r) else p);
          p = (if RecordLIneId r \<noteq> ''''
               then Values_Add p ''record_line_id'' (RecordLIneId r) else p);
          p = (if KeyWord r \<noteq> '''' then Values_Add p ''keyword'' (KeyWord r) else p)
      in p)"

subsection \<open>Payloads built inside the operations\<close>

text \<open>
  Each operation below builds its payload in its first lines and then calls \<^verbatim>\<open>post\<close>.
  The payload part is a definition of its own, named after the operation, so that it can
  be talked about; the operation applies \<^verbatim>\<open>post\<close> to it.
\<close>

text \<open>\<^verbatim>\<open>DomainsService.Create\<close>, lines 167 to 170.\<close>

definition DomainsService_Create_payload ::
  "('c \<Rightarrow> Values) \<Rightarrow> 'c DomainsService \<Rightarrow> Domain \<Rightarrow> Values" where
  "DomainsService_Create_payload toPayLoad s domainAttributes =
     (let payload = toPayLoad (Client.CommonParams (DomainsService.client s));
          payload = Values_Set payload ''domain'' (Domain.Name domainAttributes);
          payload = Values_Set payload ''group_id'' (GroupID domainAttributes);
          payload = Values_Set payload ''is_mark'' (IsMark domainAttributes)
      in payload)"

text \<open>\<^verbatim>\<open>DomainsService.Get\<close> and \<^verbatim>\<open>DomainsService.Delete\<close>, lines 186, 187 and 203, 204.\<close>

definition DomainsService_id_payload ::
  "('c \<Rightarrow> Values) \<Rightarrow> 'c DomainsService \<Rightarrow> go_int \<Rightarrow> Values" where
  "DomainsService_id_payload toPayLoad s id' =
     (let payload = toPayLoad (Client.CommonParams (DomainsService.client s));
          payload = Values_Set payload ''domain_id'' (Itoa id')
      in payload)"

text \<open>\<^verbatim>\<open>RecordsService.Create\<close>, lines 352 to 385.\<close>

definition RecordsService_Create_payload ::
  "('c \<Rightarrow> Values) \<Rightarrow> 'c RecordsService \<Rightarrow> string \<Rightarrow> Record \<Rightarrow> Values" where
  "RecordsService_Create_payload toPayLoad s domain recordAttributes =
     (let payload = toPayLoad (Client.CommonParams (RecordsService.client s));
          payload = Values_Add payload ''domain_id'' domain;
          payload = (if Record.Name recordAttributes \<noteq> ''''
               then Values_Add payload ''sub_domain'' (Record.Name recordAttributes) else payload);
          payload = (if Record.Type recordAttributes \<noteq> ''''
               then Values_Add payload ''record_type'' (Record.Type recordAttributes) else payload);
          payload = (if Line recordAttributes \<noteq> ''''
               then Values_Add payload ''record_line'' (Line recordAttributes) else payload);
          payload = (if LineID recordAttributes \<noteq> ''''
               then Values_Add payload ''record_line_id'' (LineID recordAttributes) else payload);
          payload = (if Value recordAttributes \<noteq> ''''
               then Values_Add payload ''value'' (Value recordAttributes) else payload);
          payload = (if MX recordAttributes \<noteq> ''''
               then Values_Add payload ''mx'' (MX recordAttributes) else payload);
          payload = (if Record.TTL recordAttributes \<noteq> ''''
               then Values_Add payload ''ttl'' (Record.TTL recordAttributes) else payload);
          payload = (if Record.Status recordAttributes \<noteq> ''''
               then Values_Add payload ''status'' (Record.Status recordAttributes) else payload)
      in payload)"

text \<open>\<^verbatim>\<open>RecordsService.Get\<close> and \<^verbatim>\<open>RecordsService.Delete\<close>, lines 405 to 407 and 521 to 523.\<close>

definition RecordsService_id_payload ::
  "('c \<Rightarrow> Values) \<Rightarrow> 'c RecordsService \<Rightarrow> string \<Rightarrow> string \<Rightarrow> Values" where
  "RecordsService_id_payload toPayLoad s domain recordID =
     (let payload = toPayLoad (Client.CommonParams (RecordsService.client s));
          payload = Values_Add payload ''domain_id'' domain;
          payload = Values_Add payload ''record_id'' recordID
      in payload)"

text \<open>\<^verbatim>\<open>RecordsService.Update\<close>, lines 427 to 468.\<close>

definition RecordsService_Update_payload ::
  "('c \<Rightarrow> Values) \<Rightarrow> 'c RecordsService \<Rightarrow> string \<Rightarrow> string \<Rightarrow> Record \<Rightarrow> Values" where
  "RecordsService_Update_payload toPayLoad s domain recordID recordAttributes =
     (let payload = toPayLoad (Client.CommonParams (RecordsService.client s));
          payload = Values_Add payload ''domain_id'' domain;
          payload = (if Record.ID recordAttributes \<noteq> ''''
               then Values_Add payload ''record_id'' (Record.ID recordAttributes) else payload);
          payload = (if Record.Name recordAttributes \<noteq> ''''
               then Values_Add payload ''sub_domain'' (Record.Name recordAttributes) else payload);
          payload = (if Record.ID recordAttributes = '''' \<and> recordID \<noteq> ''''
               then Values_Add payload ''record_id'' recordID else payload);
          payload = (if Record.Type recordAttributes \<noteq> ''''
               then Values_Add payload ''record_type'' (Record.Type recordAttributes) else payload);
          payload = (if Line recordAttributes \<noteq> ''''
               then Values_Add payload ''record_line'' (Line recordAttributes) else payload);
          payload = (if LineID recordAttributes \<noteq> ''''
               then Values_Add payload ''record_line_id'' (LineID recordAttributes) else payload);
          payload = (if Value recordAttributes \<noteq> ''''
               then Values_Add payload ''value'' (Value recordAttributes) else payload);
          payload = (if MX recordAttributes \<noteq> ''''
               then Values_Add payload ''mx'' (MX recordAttributes) else payload);
          payload = (if Record.TTL recordAttributes \<noteq> ''''
               then Values_Add payload ''ttl'' (Record.TTL recordAttributes) else payload);
          payload = (if Record.Status recordAttributes \<noteq> ''''
               then Values_Add payload ''status'' (Record.Status recordAttributes) else payload)
      in payload)"

text \<open>\<^verbatim>\<open>RecordsService.Remark\<close>, lines 488 to 501.\<close>

definition RecordsService_Remark_payload ::
  "('c \<Rightarrow> Values) \<Rightarrow> 'c RecordsService \<Rightarrow> string \<Rightarrow> string \<Rightarrow> Record \<Rightarrow> Values" where
  "RecordsService_Remark_payload toPayLoad s domain recordID recordAttributes =
     (let payload = toPayLoad (Client.CommonParams (RecordsService.client s));
          payload = Values_Add payload ''domain_id'' domain;
          payload = (if Record.ID recordAttributes \<noteq> ''''
               then Values_Add payload ''record_id'' (Record.ID recordAttributes) else payload);
          payload = (if Record.ID recordAttributes = '''' \<and> recordID \<noteq> ''''
               then Values_Add payload ''record_id'' recordID else payload);
          payload = (if Record.Remark recordAttributes \<noteq> ''''
               then Values_Add payload ''remark'' (Record.Remark recordAttributes) else payload)
      in payload)"

section \<open>DomainsService\<close>

text \<open>
  An operation gives the tuple the Go function returns. \<^verbatim>\<open>fmt.Errorf\<close> with the
  single verb \<^verbatim>\<open>%s\<close> at the end of the format and a string argument gives the error
  whose text is the format's prefix followed by the argument.
\<close>

definition DomainsService_List ::
  "('c \<Rightarrow> Values) \<Rightarrow> (domainListWrapper, 'r) post \<Rightarrow> 'c DomainListRequest
     \<Rightarrow> Domain slice \<times> 'r option \<times> error option" where
  "DomainsService_List toPayLoad post request =
     (let payLoad = DomainListRequest_toPayLOad toPayLoad request;
          (returnedDomains, res, err) = post methodDomainList payLoad domainListWrapper_zero
      in if err \<noteq> None then (None, res, err)
         else if Code (domainListWrapper.Status returnedDomains) \<noteq> ''1''
         then (None, None,
               Some (Error (''could not get domains: ''
                            @ Message (domainListWrapper.Status returnedDomains))))
         else (Domains returnedDomains, res, None))"

definition DomainsService_Create ::
  "('c \<Rightarrow> Values) \<Rightarrow> (domainWrapper, 'r) post \<Rightarrow> 'c DomainsService \<Rightarrow> Domain
     \<Rightarrow> Domain \<times> 'r option \<times> error option" where
  "DomainsService_Create toPayLoad post s domainAttributes =
     (let payload = DomainsService_Create_payload toPayLoad s domainAttributes;
          (returnedDomain, res, err) = post methodDomainCreate payload domainWrapper_zero
      in if err \<noteq> None then (Domain_zero, res, err)
         else (domainWrapper.Domain returnedDomain, res, None))"

definition DomainsService_Get ::
  "('c \<Rightarrow> Values) \<Rightarrow> (domainWrapper, 'r) post \<Rightarrow> 'c DomainsService \<Rightarrow> go_int
     \<Rightarrow> Domain \<times> 'r option \<times> error option" where
  "DomainsService_Get toPayLoad post s id' =
     (let payload = DomainsService_id_payload toPayLoad s id';
          (returnedDomain, res, err) = post methodDomainInfo payload domainWrapper_zero
      in if err \<noteq> None then (Domain_zero, res, err)
         else (domainWrapper.Domain returnedDomain, res, None))"

definition DomainsService_Delete ::
  "('c \<Rightarrow> Values) \<Rightarrow> (domainWrapper, 'r) post \<Rightarrow> 'c DomainsService \<Rightarrow> go_int
     \<Rightarrow> 'r option \<times> error option" where
  "DomainsService_Delete toPayLoad post s id' =
     (let payload = DomainsService_id_payload toPayLoad s id';
          (returnedDomain, res, err) = post methodDomainRemove payload domainWrapper_zero
      in (res, err))"

definition DomainsService_Log ::
  "('c \<Rightarrow> Values) \<Rightarrow> (domainLogWrapper, 'r) post \<Rightarrow> 'c DomainLogRequest
     \<Rightarrow> string slice \<times> error option" where
  "DomainsService_Log toPayLoad post request =
     (let payload = DomainLogRequest_toPayLoad toPayLoad request;
          (returnedDomain, res, err) = post methodDomainLog payload domainLogWrapper_zero
      in if err \<noteq> None then (None, err)
         else if Code (domainLogWrapper.Status returnedDomain) \<noteq> ''1''
         then (None,
               Some (Error (''could not get domain logs: ''
                            @ Message (domainLogWrapper.Status returnedDomain))))
         else (Log returnedDomain, None))"

section \<open>RecordsService\<close>

definition RecordsService_List ::
  "('c \<Rightarrow> Values) \<Rightarrow> (recordsWrapper, 'r) post \<Rightarrow> 'c RecordListRequest
     \<Rightarrow> Record slice \<times> 'r option \<times> error option" where
  "RecordsService_List toPayLoad post request =
     (let payload = RecordListRequest_toPayLOad toPayLoad request;
          (wrappedRecords, res, err) = post methodRecordList payload recordsWrapper_zero
      in if err \<noteq> None then (None, res, err)
         else if Code (recordsWrapper.Status wrappedRecords) \<noteq> ''1''
         then (None, None,
               Some (Error (''could not get domains: ''
                            @ Message (recordsWrapper.Status wrappedRecords))))
         else (recordsWrapper.Records wrappedRecords, res, None))"

text \<open>
  \<^verbatim>\<open>Create\<close>, \<^verbatim>\<open>Get\<close>, \<^verbatim>\<open>Update\<close> and \<^verbatim>\<open>Remark\<close> end with the same three
  returns (lines 389 to 398, 411 to 420, 472 to 481 and 505 to 514), written out in each.
\<close>

definition RecordsService_Create ::
  "('c \<Rightarrow> Values) \<Rightarrow> (recordWrapper, 'r) post \<Rightarrow> 'c RecordsService \<Rightarrow> string \<Rightarrow> Record
     \<Rightarrow> Record \<times> 'r option \<times> error option" where
  "RecordsService_Create toPayLoad post s domain recordAttributes =
     (let payload = RecordsService_Create_payload toPayLoad s domain recordAttributes;
          (returnedRecord, res, err) = post methodRecordCreate payload recordWrapper_zero
      in if err \<noteq> None then (Record_zero, res, err)
         else if Code (recordWrapper.Status returnedRecord) \<noteq> ''1''
         then (Record returnedRecord, None,
               Some (Error (''could not get domains: ''
                            @ Message (recordWrapper.Status returnedRecord))))
         else (Record returnedRecord, res, None))"

definition RecordsService_Get ::
  "('c \<Rightarrow> Values) \<Rightarrow> (recordWrapper, 'r) post \<Rightarrow> 'c RecordsService \<Rightarrow> string \<Rightarrow> string
     \<Rightarrow> Record \<times> 'r option \<times> error option" where
  "RecordsService_Get toPayLoad post s domain recordID =
     (let payload = RecordsService_id_payload toPayLoad s domain recordID;
          (returnedRecord, res, err) = post methodRecordInfo payload recordWrapper_zero
      in if err \<noteq> None then (Record_zero, res, err)
         else if Code (recordWrapper.Status returnedRecord) \<noteq> ''1''
         then (Record returnedRecord, None,
               Some (Error (''could not get domains: ''
                            @ Message (recordWrapper.Status returnedRecord))))
         else (Record returnedRecord, res, None))"

definition RecordsService_Update ::
  "('c \<Rightarrow> Values) \<Rightarrow> (recordWrapper, 'r) post \<Rightarrow> 'c RecordsService \<Rightarrow> string \<Rightarrow> string
     \<Rightarrow> Record \<Rightarrow> Record \<times> 'r option \<times> error option" where
  "RecordsService_Update toPayLoad post s domain recordID recordAttributes =
     (let payload = RecordsService_Update_payload toPayLoad s domain recordID recordAttributes;
          (returnedRecord, res, err) = post methodRecordModify payload recordWrapper_zero
      in if err \<noteq> None then (Record_zero, res, err)
         else if Code (recordWrapper.Status returnedRecord) \<noteq> ''1''
         then (Record returnedRecord, None,
               Some (Error (''could not get domains: ''
                            @ Message (recordWrapper.Status returnedRecord))))
         else (Record returnedRecord, res, None))"

definition RecordsService_Remark ::
  "('c \<Rightarrow> Values) \<Rightarrow> (recordWrapper, 'r) post \<Rightarrow> 'c RecordsService \<Rightarrow> string \<Rightarrow> string
     \<Rightarrow> Record \<Rightarrow> Record \<times> 'r option \<times> error option" where
  "RecordsService_Remark toPayLoad post s domain recordID recordAttributes =
     (let payload = RecordsService_Remark_payload toPayLoad s domain recordID recordAttributes;
          (returnedRecord, res, err) = post methodRecordRemark payload recordWrapper_zero
      in if err \<noteq> None then (Record_zero, res, err)
         else if Code (recordWrapper.Status returnedRecord) \<noteq> ''1''
         then (Record returnedRecord, None,
               Some (Error (''could not get domains: ''
                            @ Message (recordWrapper.Status returnedRecord))))
         else (Record returnedRecord, res, None))"

definition RecordsService_Delete ::
  "('c \<Rightarrow> Values) \<Rightarrow> (recordWrapper, 'r) post \<Rightarrow> 'c RecordsService \<Rightarrow> string \<Rightarrow> string
     \<Rightarrow> 'r option \<times> error option" where
  "RecordsService_Delete toPayLoad post s domain recordID =
     (let payload = RecordsService_id_payload toPayLoad s domain recordID;
          (returnedRecord, res, err) = post methodRecordRemove payload recordWrapper_zero
      in if err \<noteq> None then (res, err)
         else if Code (recordWrapper.Status returnedRecord) \<noteq> ''1''
         then (None,
               Some (Error (''could not get domains: ''
                            @ Message (recordWrapper.Status returnedRecord))))
         else (res, None))"

section \<open>Properties of payloads, and sample collaborators\<close>

text \<open>
  \<open>optional_field base p key val\<close>: the builder that made \<open>p\<close> from the common
  payload \<open>base\<close> treats \<open>val\<close> as an optional field sent under \<open>key\<close>. When \<open>val\<close> is
  empty the builder leaves \<open>key\<close> as the common payload has it, so it adds no such key;
  when \<open>val\<close> is not empty and the common payload has no such key, \<open>key\<close> carries
  exactly \<open>val\<close>.
\<close>

definition optional_field :: "Values \<Rightarrow> Values \<Rightarrow> string \<Rightarrow> string \<Rightarrow> bool" where
  "optional_field base p key val \<longleftrightarrow>
     (val = '''' \<longrightarrow> p key = base key) \<and>
     (val \<noteq> '''' \<longrightarrow> base key = None \<longrightarrow> p key = Some [val])"

text \<open>
  Sample collaborators, to run the operations on concrete inputs: common parameters that
  are a login token and a format, a transport that answers every call with a fixed
  envelope, descriptor and error, and a descriptor that is the HTTP status.
\<close>

definition sample_toPayLoad :: "string \<times> string \<Rightarrow> Values" where
  "sample_toPayLoad c = Map.empty(''login_token'' \<mapsto> [fst c], ''format'' \<mapsto> [snd c])"

definition post_reply :: "'w \<Rightarrow> 'r option \<Rightarrow> error option \<Rightarrow> ('w, 'r) post" where
  "post_reply w res err method payload target = (w, res, err)"

definition sample_Response :: nat where
  "sample_Response = 200"

definition sample_Client :: "(string \<times> string) Client" where
  "sample_Client = \<lparr>Client.CommonParams = (''1234,abcdef'', ''json'')\<rparr>"

definition sample_DomainsService :: "(string \<times> string) DomainsService" where
  "sample_DomainsService = \<lparr>DomainsService.client = sample_Client\<rparr>"

definition sample_RecordsService :: "(string \<times> string) RecordsService" where
  "sample_RecordsService = \<lparr>RecordsService.client = sample_Client\<rparr>"

definition sample_Domain :: Domain where
  "sample_Domain = Domain_zero\<lparr>Domain.ID := ''6'', Domain.Name := ''example.com''\<rparr>"

definition sample_Record :: Record where
  "sample_Record =
     Record_zero\<lparr>Record.ID := ''16894439'', Record.Name := ''www'', Record.Type := ''A'',
                 Value := ''192.0.2.1''\<rparr>"

definition failed_Status :: Status where
  "failed_Status = \<lparr>Code = ''6'', Message = ''Invalid domain id''\<rparr>"

definition success_Status :: Status where
  "success_Status = \<lparr>Code = ''1'', Message = ''Action completed successful''\<rparr>"

definition sample_domainListWrapper :: "Status \<Rightarrow> domainListWrapper" where
  "sample_domainListWrapper st =
     \<lparr>domainListWrapper.Status = st, domainListWrapper.Info = DomainInfo_zero,
      Domains = Some [sample_Domain]\<rparr>"

definition sample_domainWrapper :: "Status \<Rightarrow> domainWrapper" where
  "sample_domainWrapper st =
     \<lparr>domainWrapper.Status = st, domainWrapper.Info = DomainInfo_zero,
      domainWrapper.Domain = sample_Domain\<rparr>"

definition sample_domainLogWrapper :: "Status \<Rightarrow> domainLogWrapper" where
  "sample_domainLogWrapper st =
     \<lparr>domainLogWrapper.Status = st, Log = Some [''2015-01-01 (1.2.3.4) added a record'']\<rparr>"

definition sample_recordsWrapper :: "Status \<Rightarrow> recordsWrapper" where
  "sample_recordsWrapper st =
     \<lparr>recordsWrapper.Status = st, recordsWrapper.Info = DomainInfo_zero,
      recordsWrapper.Records = Some [sample_Record]\<rparr>"

definition sample_recordWrapper :: "Status \<Rightarrow> recordWrapper" where
  "sample_recordWrapper st =
     \<lparr>recordWrapper.Status = st, recordWrapper.Info = DomainInfo_zero,
      Record = sample_Record\<rparr>"

definition sample_DomainLogRequest :: "string \<Rightarrow> string \<Rightarrow> (string \<times> string) DomainLogRequest" where
  "sample_DomainLogRequest i n =
     \<lparr>DomainLogRequest.CommonParams = (''1234,abcdef'', ''json''),
      DomainLogRequest.DomainId = i, DomainLogRequest.Domain = n,
      DomainLogRequest.Offset = 0, DomainLogRequest.Length = 25\<rparr>"

definition sample_DomainListRequest :: "(string \<times> string) DomainListRequest" where
  "sample_DomainListRequest =
     \<lparr>DomainListRequest.CommonParams = (''1234,abcdef'', ''json''),
      DomainListRequest.Type = ''mine'', DomainListRequest.Offset = '''',
      DomainListRequest.Length = ''20'', GroupId = '''', Keyword = ''''\<rparr>"

definition sample_RecordListRequest :: "string \<Rightarrow> string \<Rightarrow> (string \<times> string) RecordListRequest" where
  "sample_RecordListRequest i n =
     \<lparr>RecordListRequest.CommonParams = (''1234,abcdef'', ''json''),
      RecordListRequest.DomainId = i, RecordListRequest.Domain = n,
      RecordListRequest.Offset = '''', RecordListRequest.Length = '''', SubDomain = '''',
      RecordType = '''', RecordLine = '''', RecordLIneId = '''', KeyWord = ''''\<rparr>"

section \<open>Lookup in a payload\<close>

lemma Values_Set_apply:
  "Values_Set v key val k = (if k = key then Some [val] else v k)"
  by (simp add: Values_Set_def)

lemma Values_Add_apply:
  "Values_Add v key val k = (if k = key then Some (Values_index v key @ [val]) else v k)"
  by (simp add: Values_Add_def)

lemma Values_index_None: "v k = None \<Longrightarrow> Values_index v k = []"
  by (simp add: Values_index_def)

lemma cond_Add_apply:
  "(if c then Values_Add p key val else p) k =
     (if c \<and> k = key then Some (Values_index p key @ [val]) else p k)"
  by (simp add: Values_Add_def)

lemma cond_Set_apply:
  "(if c then Values_Set p key val else p) k = (if c \<and> k = key then Some [val] else p k)"
  by (simp add: Values_Set_def)

lemma cond_Add_index:
  "Values_index (if c then Values_Add p key val else p) k =
     (if c \<and> k = key then Values_index p key @ [val] else Values_index p k)"
  by (simp add: Values_Add_def Values_index_def)

lemma Values_Add_index:
  "Values_index (Values_Add p key val) k =
     (if k = key then Values_index p key @ [val] else Values_index p k)"
  by (simp add: Values_Add_def Values_index_def)

lemmas payload_lookup = Let_def cond_Add_apply cond_Set_apply cond_Add_index
  Values_Add_apply Values_Set_apply Values_Add_index Values_index_None

section \<open>Decimal numerals\<close>

text \<open>\<open>Itoa\<close> writes the decimal numeral of the integer: reading it back gives the integer.\<close>

lemma digit_val_digit: "d < 10 \<Longrightarrow> digit_val (''0123456789'' ! d) = d"
proof -
  assume "d < 10"
  then consider "d = 0" | "d = 1" | "d = 2" | "d = 3" | "d = 4" | "d = 5" | "d = 6"
    | "d = 7" | "d = 8" | "d = 9"
    by atomize_elim arith
  then show ?thesis
    by cases (simp_all add: digit_val_def)
qed

lemma digit_not_minus: "d < 10 \<Longrightarrow> ''0123456789'' ! d \<noteq> CHR ''-''"
proof -
  assume "d < 10"
  then consider "d = 0" | "d = 1" | "d = 2" | "d = 3" | "d = 4" | "d = 5" | "d = 6"
    | "d = 7" | "d = 8" | "d = 9"
    by atomize_elim arith
  then show ?thesis
    by cases simp_all
qed

lemma decimal_val_snoc: "decimal_val (s @ [c]) = 10 * decimal_val s + digit_val c"
  by (simp add: decimal_val_def)

lemma decimal_val_nat_digits: "decimal_val (nat_digits n) = n"
proof (induction n rule: nat_digits.induct)
  case (1 n)
  show ?case
  proof (cases "n < 10")
    case True
    then show ?thesis
      by (subst nat_digits.simps) (simp add: decimal_val_def digit_val_digit)
  next
    case False
    with 1 have "decimal_val (nat_digits (n div 10)) = n div 10" by simp
    with False show ?thesis
      by (subst nat_digits.simps) (simp add: decimal_val_snoc digit_val_digit)
  qed
qed

lemma nat_digits_head: "\<exists>c cs. nat_digits n = c # cs \<and> c \<noteq> CHR ''-''"
proof (induction n rule: nat_digits.induct)
  case (1 n)
  show ?case
  proof (cases "n < 10")
    case True
    then show ?thesis
      by (subst nat_digits.simps) (simp add: digit_not_minus)
  next
    case False
    with 1 obtain c cs where "nat_digits (n div 10) = c # cs" "c \<noteq> CHR ''-''" by auto
    with False show ?thesis
      by (subst nat_digits.simps) simp
  qed
qed

lemma Atoi_Itoa: "Atoi (Itoa i) = sint i"
proof (cases "sint i < 0")
  case True
  then show ?thesis
    by (simp add: Atoi_def Itoa_def decimal_val_nat_digits)
next
  case False
  obtain c cs where h: "nat_digits (nat (sint i)) = c # cs" "c \<noteq> CHR ''-''"
    using nat_digits_head by blast
  have "decimal_val (c # cs) = nat (sint i)"
    using decimal_val_nat_digits [of "nat (sint i)"] h by simp
  with False h show ?thesis
    by (simp add: Atoi_def Itoa_def)
qed

section \<open>What each builder sends under each key\<close>

lemma DomainLogRequest_fields:
  fixes toPayLoad :: "'c \<Rightarrow> Values" and c :: "'c DomainLogRequest"
  defines "p \<equiv> DomainLogRequest_toPayLoad toPayLoad c"
    and "base \<equiv> toPayLoad (DomainLogRequest.CommonParams c)"
  shows "p ''domain_id'' =
           (if DomainLogRequest.DomainId c \<noteq> '''' then Some [DomainLogRequest.DomainId c]
            else base ''domain_id'')"
    and "p ''domain'' =
           (if DomainLogRequest.DomainId c \<noteq> '''' then base ''domain''
            else Some [DomainLogRequest.Domain c])"
    and "p ''offset'' =
           (if DomainLogRequest.Offset c \<noteq> 0 then Some [Itoa (DomainLogRequest.Offset c)]
            else base ''offset'')"
    and "p ''length'' =
           (if DomainLogRequest.Length c \<noteq> 0 then Some [Itoa (DomainLogRequest.Length c)]
            else base ''length'')"
  by (simp_all add: p_def base_def DomainLogRequest_toPayLoad_def payload_lookup)

lemma DomainListRequest_fields:
  fixes toPayLoad :: "'c \<Rightarrow> Values" and c :: "'c DomainListRequest"
  defines "p \<equiv> DomainListRequest_toPayLOad toPayLoad c"
    and "base \<equiv> toPayLoad (DomainListRequest.CommonParams c)"
  shows "optional_field base p ''type'' (DomainListRequest.Type c)"
    and "optional_field base p ''offset'' (DomainListRequest.Offset c)"
    and "optional_field base p ''length'' (DomainListRequest.Length c)"
    and "optional_field base p ''group_id'' (GroupId c)"
    and "optional_field base p ''keyword'' (Keyword c)"
  by (simp_all add: p_def base_def optional_field_def DomainListRequest_toPayLOad_def
      payload_lookup)

lemma RecordListRequest_fields:
  fixes toPayLoad :: "'c \<Rightarrow> Values" and r :: "'c RecordListRequest"
  defines "p \<equiv> RecordListRequest_toPayLOad toPayLoad r"
    and "base \<equiv> toPayLoad (RecordListRequest.CommonParams r)"
  shows "optional_field base p ''domain_id'' (RecordListRequest.DomainId r)"
    and "optional_field base p ''domain'' (RecordListRequest.Domain r)"
    and "optional_field base p ''offset'' (RecordListRequest.Offset r)"
    and "optional_field base p ''length'' (RecordListRequest.Length r)"
    and "optional_field base p ''sub_domain'' (SubDomain r)"
    and "optional_field base p ''record_type'' (RecordType r)"
    and "optional_field base p ''record_line'' (RecordLine r)"
    and "optional_field base p ''record_line_id'' (RecordLIneId r)"
    and "optional_field base p ''keyword'' (KeyWord r)"
  by (simp_all add: p_def base_def optional_field_def RecordListRequest_toPayLOad_def
      payload_lookup)

lemma RecordListRequest_id_and_name:
  fixes toPayLoad :: "'c \<Rightarrow> Values" and r :: "'c RecordListRequest"
  defines "p \<equiv> RecordListRequest_toPayLOad toPayLoad r"
    and "base \<equiv> toPayLoad (RecordListRequest.CommonParams r)"
  shows "p ''domain_id'' =
           (if RecordListRequest.DomainId r \<noteq> ''''
            then Some (Values_index base ''domain_id'' @ [RecordListRequest.DomainId r])
            else base ''domain_id'')"
    and "p ''domain'' =
           (if RecordListRequest.Domain r \<noteq> ''''
            then Some (Values_index base ''domain'' @ [RecordListRequest.Domain r])
            else base ''domain'')"
  by (simp_all add: p_def base_def RecordListRequest_toPayLOad_def payload_lookup)

lemma RecordsService_Create_fields:
  fixes toPayLoad :: "'c \<Rightarrow> Values" and s :: "'c RecordsService" and domain :: string and r :: Record
  defines "p \<equiv> RecordsService_Create_payload toPayLoad s domain r"
    and "base \<equiv> toPayLoad (Client.CommonParams (RecordsService.client s))"
  shows "optional_field base p ''sub_domain'' (Record.Name r)"
    and "optional_field base p ''record_type'' (Record.Type r)"
    and "optional_field base p ''record_line'' (Line r)"
    and "optional_field base p ''record_line_id'' (LineID r)"
    and "optional_field base p ''value'' (Value r)"
    and "optional_field base p ''mx'' (MX r)"
    and "optional_field base p ''ttl'' (Record.TTL r)"
    and "optional_field base p ''status'' (Record.Status r)"
  by (simp_all add: p_def base_def optional_field_def RecordsService_Create_payload_def
      payload_lookup)

lemma RecordsService_Update_fields:
  fixes toPayLoad :: "'c \<Rightarrow> Values" and s :: "'c RecordsService" and domain recordID :: string and r :: Record
  defines "p \<equiv> RecordsService_Update_payload toPayLoad s domain recordID r"
    and "base \<equiv> toPayLoad (Client.CommonParams (RecordsService.client s))"
  shows "optional_field base p ''sub_domain'' (Record.Name r)"
    and "optional_field base p ''record_type'' (Record.Type r)"
    and "optional_field base p ''record_line'' (Line r)"
    and "optional_field base p ''record_line_id'' (LineID r)"
    and "optional_field base p ''value'' (Value r)"
    and "optional_field base p ''mx'' (MX r)"
    and "optional_field base p ''ttl'' (Record.TTL r)"
    and "optional_field base p ''status'' (Record.Status r)"
  by (simp_all add: p_def base_def optional_field_def RecordsService_Update_payload_def
      payload_lookup)

lemma RecordsService_Update_record_id:
  fixes toPayLoad :: "'c \<Rightarrow> Values" and s :: "'c RecordsService" and domain recordID :: string and r :: Record
  defines "p \<equiv> RecordsService_Update_payload toPayLoad s domain recordID r"
    and "base \<equiv> toPayLoad (Client.CommonParams (RecordsService.client s))"
  shows "p ''record_id'' =
           (if Record.ID r \<noteq> '''' then Some (Values_index base ''record_id'' @ [Record.ID r])
            else if recordID \<noteq> '''' then Some (Values_index base ''record_id'' @ [recordID])
            else base ''record_id'')"
  by (simp add: p_def base_def RecordsService_Update_payload_def payload_lookup)

lemma RecordsService_Remark_record_id:
  fixes toPayLoad :: "'c \<Rightarrow> Values" and s :: "'c RecordsService" and domain recordID :: string and r :: Record
  defines "p \<equiv> RecordsService_Remark_payload toPayLoad s domain recordID r"
    and "base \<equiv> toPayLoad (Client.CommonParams (RecordsService.client s))"
  shows "p ''record_id'' =
           (if Record.ID r \<noteq> '''' then Some (Values_index base ''record_id'' @ [Record.ID r])
            else if recordID \<noteq> '''' then Some (Values_index base ''record_id'' @ [recordID])
            else base ''record_id'')"
  by (simp add: p_def base_def RecordsService_Remark_payload_def payload_lookup)

lemma RecordsService_Remark_fields:
  "optional_field (toPayLoad (Client.CommonParams (RecordsService.client s)))
     (RecordsService_Remark_payload toPayLoad s domain recordID r) ''remark'' (Record.Remark r)"
  by (simp add: optional_field_def RecordsService_Remark_payload_def payload_lookup)

lemma DomainsService_Create_fields:
  "DomainsService_Create_payload toPayLoad s d ''domain'' = Some [Domain.Name d]"
  "DomainsService_Create_payload toPayLoad s d ''group_id'' = Some [GroupID d]"
  "DomainsService_Create_payload toPayLoad s d ''is_mark'' = Some [IsMark d]"
  by (simp_all add: DomainsService_Create_payload_def payload_lookup)

lemma DomainLogRequest_domain_id:
  "optional_field (toPayLoad (DomainLogRequest.CommonParams c))
     (DomainLogRequest_toPayLoad toPayLoad c) ''domain_id'' (DomainLogRequest.DomainId c)"
  by (simp add: optional_field_def DomainLogRequest_fields)

lemma RecordsService_Update_record_id_optional:
  "optional_field (toPayLoad (Client.CommonParams (RecordsService.client s)))
     (RecordsService_Update_payload toPayLoad s domain recordID r) ''record_id''
     (if Record.ID r \<noteq> '''' then Record.ID r else recordID)"
  by (simp add: optional_field_def RecordsService_Update_record_id Values_index_None)

lemma RecordsService_Remark_record_id_optional:
  "optional_field (toPayLoad (Client.CommonParams (RecordsService.client s)))
     (RecordsService_Remark_payload toPayLoad s domain recordID r) ''record_id''
     (if Record.ID r \<noteq> '''' then Record.ID r else recordID)"
  by (simp add: optional_field_def RecordsService_Remark_record_id Values_index_None)

section \<open>The result of each operation, by the answer of the transport\<close>

lemma DomainsService_Create_result:
  "post methodDomainCreate (DomainsService_Create_payload toPayLoad s d) domainWrapper_zero
     = (w, res, err) \<Longrightarrow>
   DomainsService_Create toPayLoad post s d =
     (if err \<noteq> None then (Domain_zero, res, err) else (domainWrapper.Domain w, res, None))"
  by (simp add: DomainsService_Create_def)

lemma DomainsService_Get_result:
  "post methodDomainInfo (DomainsService_id_payload toPayLoad s i) domainWrapper_zero
     = (w, res, err) \<Longrightarrow>
   DomainsService_Get toPayLoad post s i =
     (if err \<noteq> None then (Domain_zero, res, err) else (domainWrapper.Domain w, res, None))"
  by (simp add: DomainsService_Get_def)

lemma DomainsService_Delete_result:
  "post methodDomainRemove (DomainsService_id_payload toPayLoad s i) domainWrapper_zero
     = (w, res, err) \<Longrightarrow>
   DomainsService_Delete toPayLoad post s i = (res, err)"
  by (simp add: DomainsService_Delete_def)

lemma DomainsService_List_result:
  "post methodDomainList (DomainListRequest_toPayLOad toPayLoad rq) domainListWrapper_zero
     = (w, res, err) \<Longrightarrow>
   DomainsService_List toPayLoad post rq =
     (if err \<noteq> None then (None, res, err)
      else if Code (domainListWrapper.Status w) \<noteq> ''1''
      then (None, None,
            Some (Error (''could not get domains: '' @ Message (domainListWrapper.Status w))))
      else (Domains w, res, None))"
  by (simp add: DomainsService_List_def)

lemma DomainsService_Log_result:
  "post methodDomainLog (DomainLogRequest_toPayLoad toPayLoad rq) domainLogWrapper_zero
     = (w, res, err) \<Longrightarrow>
   DomainsService_Log toPayLoad post rq =
     (if err \<noteq> None then (None, err)
      else if Code (domainLogWrapper.Status w) \<noteq> ''1''
      then (None,
            Some (Error (''could not get domain logs: '' @ Message (domainLogWrapper.Status w))))
      else (Log w, None))"
  by (simp add: DomainsService_Log_def)

lemma RecordsService_List_result:
  "post methodRecordList (RecordListRequest_toPayLOad toPayLoad rq) recordsWrapper_zero
     = (w, res, err) \<Longrightarrow>
   RecordsService_List toPayLoad post rq =
     (if err \<noteq> None then (None, res, err)
      else if Code (recordsWrapper.Status w) \<noteq> ''1''
      then (None, None,
            Some (Error (''could not get domains: '' @ Message (recordsWrapper.Status w))))
      else (recordsWrapper.Records w, res, None))"
  by (simp add: RecordsService_List_def)

lemma RecordsService_Create_result:
  "post methodRecordCreate (RecordsService_Create_payload toPayLoad s domain r) recordWrapper_zero
     = (w, res, err) \<Longrightarrow>
   RecordsService_Create toPayLoad post s domain r =
     (if err \<noteq> None then (Record_zero, res, err)
      else if Code (recordWrapper.Status w) \<noteq> ''1''
      then (Record w, None,
            Some (Error (''could not get domains: '' @ Message (recordWrapper.Status w))))
      else (Record w, res, None))"
  by (simp add: RecordsService_Create_def)

lemma RecordsService_Get_result:
  "post methodRecordInfo (RecordsService_id_payload toPayLoad s domain rid) recordWrapper_zero
     = (w, res, err) \<Longrightarrow>
   RecordsService_Get toPayLoad post s domain rid =
     (if err \<noteq> None then (Record_zero, res, err)
      else if Code (recordWrapper.Status w) \<noteq> ''1''
      then (Record w, None,
            Some (Error (''could not get domains: '' @ Message (recordWrapper.Status w))))
      else (Record w, res, None))"
  by (simp add: RecordsService_Get_def)

lemma RecordsService_Update_result:
  "post methodRecordModify (RecordsService_Update_payload toPayLoad s domain rid r)
     recordWrapper_zero = (w, res, err) \<Longrightarrow>
   RecordsService_Update toPayLoad post s domain rid r =
     (if err \<noteq> None then (Record_zero, res, err)
      else if Code (recordWrapper.Status w) \<noteq> ''1''
      then (Record w, None,
            Some (Error (''could not get domains: '' @ Message (recordWrapper.Status w))))
      else (Record w, res, None))"
  by (simp add: RecordsService_Update_def)

lemma RecordsService_Remark_result:
  "post methodRecordRemark (RecordsService_Remark_payload toPayLoad s domain rid r)
     recordWrapper_zero = (w, res, err) \<Longrightarrow>
   RecordsService_Remark toPayLoad post s domain rid r =
     (if err \<noteq> None then (Record_zero, res, err)
      else if Code (recordWrapper.Status w) \<noteq> ''1''
      then (Record w, None,
            Some (Error (''could not get domains: '' @ Message (recordWrapper.Status w))))
      else (Record w, res, None))"
  by (simp add: RecordsService_Remark_def)

lemma RecordsService_Delete_result:
  "post methodRecordRemove (RecordsService_id_payload toPayLoad s domain rid) recordWrapper_zero
     = (w, res, err) \<Longrightarrow>
   RecordsService_Delete toPayLoad post s domain rid =
     (if err \<noteq> None then (res, err)
      else if Code (recordWrapper.Status w) \<noteq> ''1''
      then (None,
            Some (Error (''could not get domains: '' @ Message (recordWrapper.Status w))))
      else (res, None))"
  by (simp add: RecordsService_Delete_def)

section \<open>The claims\<close>

text \<open>
  Claim C1. \<^verbatim>\<open>DomainsService.Create\<close>, \<^verbatim>\<open>Get\<close> and \<^verbatim>\<open>Delete\<close> never read the status
  of the envelope. When the transport gives no error, \<^verbatim>\<open>Create\<close> and \<^verbatim>\<open>Get\<close> give the
  decoded domain, the descriptor and no error, and \<^verbatim>\<open>Delete\<close> gives the descriptor and
  no error, whatever envelope \<open>w\<close> (and so whatever status code) came back. The error of
  each of the three is the error of the transport, so only a transport error makes them
  fail.
\<close>

theorem domain_create_get_delete_skip_status:
  "(post methodDomainCreate (DomainsService_Create_payload toPayLoad s d) domainWrapper_zero
      = (w1, res1, None) \<longrightarrow>
    DomainsService_Create toPayLoad post s d = (domainWrapper.Domain w1, res1, None)) \<and>
   (post methodDomainInfo (DomainsService_id_payload toPayLoad s i) domainWrapper_zero
      = (w2, res2, None) \<longrightarrow>
    DomainsService_Get toPayLoad post s i = (domainWrapper.Domain w2, res2, None)) \<and>
   (post methodDomainRemove (DomainsService_id_payload toPayLoad s j) domainWrapper_zero
      = (w3, res3, None) \<longrightarrow>
    DomainsService_Delete toPayLoad post s j = (res3, None)) \<and>
   snd (snd (DomainsService_Create toPayLoad post s d)) =
     snd (snd (post methodDomainCreate (DomainsService_Create_payload toPayLoad s d)
                 domainWrapper_zero)) \<and>
   snd (snd (DomainsService_Get toPayLoad post s i)) =
     snd (snd (post methodDomainInfo (DomainsService_id_payload toPayLoad s i)
                 domainWrapper_zero)) \<and>
   snd (DomainsService_Delete toPayLoad post s j) =
     snd (snd (post methodDomainRemove (DomainsService_id_payload toPayLoad s j)
                 domainWrapper_zero))"
  by (auto simp add: DomainsService_Create_def DomainsService_Get_def
      DomainsService_Delete_def split: prod.splits)

theorem domain_create_get_delete_skip_status_witness:
  "Code (domainWrapper.Status (sample_domainWrapper failed_Status)) \<noteq> ''1'' \<and>
   DomainsService_Create sample_toPayLoad
       (post_reply (sample_domainWrapper failed_Status) (Some sample_Response) None)
       sample_DomainsService sample_Domain
     = (sample_Domain, Some sample_Response, None) \<and>
   DomainsService_Get sample_toPayLoad
       (post_reply (sample_domainWrapper failed_Status) (Some sample_Response) None)
       sample_DomainsService 6
     = (sample_Domain, Some sample_Response, None) \<and>
   DomainsService_Delete sample_toPayLoad
       (post_reply (sample_domainWrapper failed_Status) (Some sample_Response) None)
       sample_DomainsService 6
     = (Some sample_Response, None)"
  using domain_create_get_delete_skip_status
    [where post = "post_reply (sample_domainWrapper failed_Status) (Some sample_Response) None"
       and toPayLoad = sample_toPayLoad and s = sample_DomainsService and d = sample_Domain
       and i = 6 and j = 6 and ?w1.0 = "sample_domainWrapper failed_Status"
       and ?w2.0 = "sample_domainWrapper failed_Status"
       and ?w3.0 = "sample_domainWrapper failed_Status"
       and ?res1.0 = "Some sample_Response" and ?res2.0 = "Some sample_Response"
       and ?res3.0 = "Some sample_Response"]
  by (simp add: post_reply_def sample_domainWrapper_def failed_Status_def)

text \<open>
  Claim C2, as stated, fails. A \<^verbatim>\<open>DomainLogRequest\<close> whose \<^verbatim>\<open>DomainId\<close> and
  \<^verbatim>\<open>Domain\<close> are both empty gives a payload with the key \<^verbatim>\<open>domain\<close>, carrying the
  empty string; \<^verbatim>\<open>DomainsService.Create\<close> with a domain whose \<^verbatim>\<open>GroupID\<close> and
  \<^verbatim>\<open>IsMark\<close> are empty gives a payload with the keys \<^verbatim>\<open>group_id\<close> and \<^verbatim>\<open>is_mark\<close>,
  each carrying the empty string. The common parameters of the sample have none of these
  keys.
\<close>

theorem empty_fields_sent_by_two_builders:
  "DomainLogRequest.DomainId (sample_DomainLogRequest '''' '''') = '''' \<and>
   DomainLogRequest.Domain (sample_DomainLogRequest '''' '''') = '''' \<and>
   sample_toPayLoad (DomainLogRequest.CommonParams (sample_DomainLogRequest '''' ''''))
     ''domain'' = None \<and>
   DomainLogRequest_toPayLoad sample_toPayLoad (sample_DomainLogRequest '''' '''') ''domain''
     = Some [''''] \<and>
   \<not> optional_field
       (sample_toPayLoad (DomainLogRequest.CommonParams (sample_DomainLogRequest '''' '''')))
       (DomainLogRequest_toPayLoad sample_toPayLoad (sample_DomainLogRequest '''' ''''))
       ''domain'' (DomainLogRequest.Domain (sample_DomainLogRequest '''' '''')) \<and>
   GroupID sample_Domain = '''' \<and> IsMark sample_Domain = '''' \<and>
   DomainsService_Create_payload sample_toPayLoad sample_DomainsService sample_Domain
     ''group_id'' = Some [''''] \<and>
   DomainsService_Create_payload sample_toPayLoad sample_DomainsService sample_Domain
     ''is_mark'' = Some [''''] \<and>
   \<not> optional_field
       (sample_toPayLoad (Client.CommonParams (DomainsService.client sample_DomainsService)))
       (DomainsService_Create_payload sample_toPayLoad sample_DomainsService sample_Domain)
       ''is_mark'' (IsMark sample_Domain)"
  by (simp add: optional_field_def DomainLogRequest_fields DomainsService_Create_fields
      sample_DomainLogRequest_def sample_Domain_def Domain_zero_def sample_toPayLoad_def)

text \<open>
  Claim C2, amended. Every field that a builder tests for emptiness is an optional field:
  left empty (zero, for the two numeric fields) it adds no key; set, its key carries
  exactly its text, in decimal for the numeric fields (\<open>Atoi\<close> reads \<open>Itoa\<close> back).
  These are \<^verbatim>\<open>DomainId\<close>, \<^verbatim>\<open>Offset\<close> and \<^verbatim>\<open>Length\<close> of a \<^verbatim>\<open>DomainLogRequest\<close>, the
  five fields of a \<^verbatim>\<open>DomainListRequest\<close>, the nine fields of a \<^verbatim>\<open>RecordListRequest\<close>,
  the eight template fields of \<^verbatim>\<open>RecordsService.Create\<close> and \<^verbatim>\<open>Update\<close>, the remark
  of \<^verbatim>\<open>Remark\<close>, and the record id of \<^verbatim>\<open>Update\<close> and \<^verbatim>\<open>Remark\<close> (the template's
  \<^verbatim>\<open>ID\<close>, or else the argument \<^verbatim>\<open>recordID\<close>). For the fields that are not tested
  for emptiness only the second half is kept: a non-empty \<^verbatim>\<open>Domain\<close> of a
  \<^verbatim>\<open>DomainLogRequest\<close> is sent as it is when \<^verbatim>\<open>DomainId\<close> is empty (and is not sent
  when \<^verbatim>\<open>DomainId\<close> is set), and a non-empty \<^verbatim>\<open>Name\<close>, \<^verbatim>\<open>GroupID\<close> or \<^verbatim>\<open>IsMark\<close>
  given to \<^verbatim>\<open>DomainsService.Create\<close> is sent as it is.
\<close>

theorem guarded_fields_sent_iff_nonempty:
  fixes toPayLoad :: "'c \<Rightarrow> Values"
    and lr :: "'c DomainLogRequest" and dlr :: "'c DomainListRequest"
    and rlr :: "'c RecordListRequest" and ds :: "'c DomainsService" and d :: Domain
    and s :: "'c RecordsService" and domain recordID :: string and r :: Record
  defines "log \<equiv> DomainLogRequest_toPayLoad toPayLoad lr"
    and "logc \<equiv> toPayLoad (DomainLogRequest.CommonParams lr)"
    and "dl \<equiv> DomainListRequest_toPayLOad toPayLoad dlr"
    and "dlc \<equiv> toPayLoad (DomainListRequest.CommonParams dlr)"
    and "rl \<equiv> RecordListRequest_toPayLOad toPayLoad rlr"
    and "rlc \<equiv> toPayLoad (RecordListRequest.CommonParams rlr)"
    and "rc \<equiv> toPayLoad (Client.CommonParams (RecordsService.client s))"
    and "cr \<equiv> RecordsService_Create_payload toPayLoad s domain r"
    and "up \<equiv> RecordsService_Update_payload toPayLoad s domain recordID r"
    and "rm \<equiv> RecordsService_Remark_payload toPayLoad s domain recordID r"
    and "dc \<equiv> DomainsService_Create_payload toPayLoad ds d"
  shows
   "(optional_field logc log ''domain_id'' (DomainLogRequest.DomainId lr) \<and>
     (DomainLogRequest.DomainId lr = '''' \<and> DomainLogRequest.Domain lr \<noteq> '''' \<longrightarrow>
        log ''domain'' = Some [DomainLogRequest.Domain lr]) \<and>
     (DomainLogRequest.DomainId lr \<noteq> '''' \<longrightarrow> log ''domain'' = logc ''domain'') \<and>
     (DomainLogRequest.Offset lr = 0 \<longrightarrow> log ''offset'' = logc ''offset'') \<and>
     (DomainLogRequest.Offset lr \<noteq> 0 \<longrightarrow>
        log ''offset'' = Some [Itoa (DomainLogRequest.Offset lr)] \<and>
        Atoi (Itoa (DomainLogRequest.Offset lr)) = sint (DomainLogRequest.Offset lr)) \<and>
     (DomainLogRequest.Length lr = 0 \<longrightarrow> log ''length'' = logc ''length'') \<and>
     (DomainLogRequest.Length lr \<noteq> 0 \<longrightarrow>
        log ''length'' = Some [Itoa (DomainLogRequest.Length lr)] \<and>
        Atoi (Itoa (DomainLogRequest.Length lr)) = sint (DomainLogRequest.Length lr))) \<and>
    (optional_field dlc dl ''type'' (DomainListRequest.Type dlr) \<and>
     optional_field dlc dl ''offset'' (DomainListRequest.Offset dlr) \<and>
     optional_field dlc dl ''length'' (DomainListRequest.Length dlr) \<and>
     optional_field dlc dl ''group_id'' (GroupId dlr) \<and>
     optional_field dlc dl ''keyword'' (Keyword dlr)) \<and>
    (optional_field rlc rl ''domain_id'' (RecordListRequest.DomainId rlr) \<and>
     optional_field rlc rl ''domain'' (RecordListRequest.Domain rlr) \<and>
     optional_field rlc rl ''offset'' (RecordListRequest.Offset rlr) \<and>
     optional_field rlc rl ''length'' (RecordListRequest.Length rlr) \<and>
     optional_field rlc rl ''sub_domain'' (SubDomain rlr) \<and>
     optional_field rlc rl ''record_type'' (RecordType rlr) \<and>
     optional_field rlc rl ''record_line'' (RecordLine rlr) \<and>
     optional_field rlc rl ''record_line_id'' (RecordLIneId rlr) \<and>
     optional_field rlc rl ''keyword'' (KeyWord rlr)) \<and>
    (optional_field rc cr ''sub_domain'' (Record.Name r) \<and>
     optional_field rc cr ''record_type'' (Record.Type r) \<and>
     optional_field rc cr ''record_line'' (Line r) \<and>
     optional_field rc cr ''record_line_id'' (LineID r) \<and>
     optional_field rc cr ''value'' (Value r) \<and>
     optional_field rc cr ''mx'' (MX r) \<and>
     optional_field rc cr ''ttl'' (Record.TTL r) \<and>
     optional_field rc cr ''status'' (Record.Status r)) \<and>
    (optional_field rc up ''record_id'' (if Record.ID r \<noteq> '''' then Record.ID r else recordID) \<and>
     optional_field rc up ''sub_domain'' (Record.Name r) \<and>
     optional_field rc up ''record_type'' (Record.Type r) \<and>
     optional_field rc up ''record_line'' (Line r) \<and>
     optional_field rc up ''record_line_id'' (LineID r) \<and>
     optional_field rc up ''value'' (Value r) \<and>
     optional_field rc up ''mx'' (MX r) \<and>
     optional_field rc up ''ttl'' (Record.TTL r) \<and>
     optional_field rc up ''status'' (Record.Status r)) \<and>
    (optional_field rc rm ''record_id'' (if Record.ID r \<noteq> '''' then Record.ID r else recordID) \<and>
     optional_field rc rm ''remark'' (Record.Remark r)) \<and>
    ((Domain.Name d \<noteq> '''' \<longrightarrow> dc ''domain'' = Some [Domain.Name d]) \<and>
     (GroupID d \<noteq> '''' \<longrightarrow> dc ''group_id'' = Some [GroupID d]) \<and>
     (IsMark d \<noteq> '''' \<longrightarrow> dc ''is_mark'' = Some [IsMark d]))"
  unfolding log_def logc_def dl_def dlc_def rl_def rlc_def rc_def cr_def up_def rm_def dc_def
  by (simp add: DomainLogRequest_domain_id DomainLogRequest_fields DomainListRequest_fields
      RecordListRequest_fields RecordsService_Create_fields RecordsService_Update_fields
      RecordsService_Update_record_id_optional RecordsService_Remark_record_id_optional
      RecordsService_Remark_fields DomainsService_Create_fields Atoi_Itoa)

theorem guarded_fields_sent_iff_nonempty_witness:
  "(DomainLogRequest_toPayLoad sample_toPayLoad (sample_DomainLogRequest ''6'' '''') ''domain_id''
      = Some [''6''] \<and>
    DomainLogRequest_toPayLoad sample_toPayLoad (sample_DomainLogRequest ''6'' '''') ''domain''
      = None \<and>
    DomainLogRequest_toPayLoad sample_toPayLoad (sample_DomainLogRequest ''6'' '''') ''offset''
      = None \<and>
    DomainLogRequest_toPayLoad sample_toPayLoad (sample_DomainLogRequest ''6'' '''') ''length''
      = Some [''25'']) \<and>
   (DomainListRequest_toPayLOad sample_toPayLoad sample_DomainListRequest ''type''
      = Some [''mine''] \<and>
    DomainListRequest_toPayLOad sample_toPayLoad sample_DomainListRequest ''offset'' = None \<and>
    DomainListRequest_toPayLOad sample_toPayLoad sample_DomainListRequest ''length''
      = Some [''20''] \<and>
    DomainListRequest_toPayLOad sample_toPayLoad sample_DomainListRequest ''group_id'' = None \<and>
    DomainListRequest_toPayLOad sample_toPayLoad sample_DomainListRequest ''keyword'' = None) \<and>
   (RecordListRequest_toPayLOad sample_toPayLoad (sample_RecordListRequest ''12345'' '''')
      ''domain_id'' = Some [''12345''] \<and>
    RecordListRequest_toPayLOad sample_toPayLoad (sample_RecordListRequest ''12345'' '''')
      ''domain'' = None \<and>
    RecordListRequest_toPayLOad sample_toPayLoad (sample_RecordListRequest ''12345'' '''')
      ''offset'' = None \<and>
    RecordListRequest_toPayLOad sample_toPayLoad (sample_RecordListRequest ''12345'' '''')
      ''length'' = None \<and>
    RecordListRequest_toPayLOad sample_toPayLoad (sample_RecordListRequest ''12345'' '''')
      ''sub_domain'' = None \<and>
    RecordListRequest_toPayLOad sample_toPayLoad (sample_RecordListRequest ''12345'' '''')
      ''record_type'' = None \<and>
    RecordListRequest_toPayLOad sample_toPayLoad (sample_RecordListRequest ''12345'' '''')
      ''record_line'' = None \<and>
    RecordListRequest_toPayLOad sample_toPayLoad (sample_RecordListRequest ''12345'' '''')
      ''record_line_id'' = None \<and>
    RecordListRequest_toPayLOad sample_toPayLoad (sample_RecordListRequest ''12345'' '''')
      ''keyword'' = None) \<and>
   (RecordsService_Create_payload sample_toPayLoad sample_RecordsService ''6'' sample_Record
      ''sub_domain'' = Some [''www''] \<and>
    RecordsService_Create_payload sample_toPayLoad sample_RecordsService ''6'' sample_Record
      ''record_type'' = Some [''A''] \<and>
    RecordsService_Create_payload sample_toPayLoad sample_RecordsService ''6'' sample_Record
      ''value'' = Some [''192.0.2.1''] \<and>
    RecordsService_Create_payload sample_toPayLoad sample_RecordsService ''6'' sample_Record
      ''mx'' = None \<and>
    RecordsService_Create_payload sample_toPayLoad sample_RecordsService ''6'' sample_Record
      ''ttl'' = None) \<and>
   (RecordsService_Update_payload sample_toPayLoad sample_RecordsService ''6'' ''99''
      sample_Record ''record_id'' = Some [''16894439''] \<and>
    RecordsService_Update_payload sample_toPayLoad sample_RecordsService ''6'' ''99''
      sample_Record ''sub_domain'' = Some [''www''] \<and>
    RecordsService_Update_payload sample_toPayLoad sample_RecordsService ''6'' ''99''
      sample_Record ''record_line'' = None \<and>
    RecordsService_Update_payload sample_toPayLoad sample_RecordsService ''6'' ''99''
      sample_Record ''status'' = None) \<and>
   (RecordsService_Remark_payload sample_toPayLoad sample_RecordsService ''6'' ''99''
      sample_Record ''record_id'' = Some [''16894439''] \<and>
    RecordsService_Remark_payload sample_toPayLoad sample_RecordsService ''6'' ''99''
      sample_Record ''remark'' = None) \<and>
   (DomainsService_Create_payload sample_toPayLoad sample_DomainsService sample_Domain
      ''domain'' = Some [''example.com'']) \<and>
   (DomainLogRequest_toPayLoad sample_toPayLoad (sample_DomainLogRequest '''' ''example.com'')
      ''domain_id'' = None \<and>
    DomainLogRequest_toPayLoad sample_toPayLoad (sample_DomainLogRequest '''' ''example.com'')
      ''domain'' = Some [''example.com'']) \<and>
   (RecordsService_Remark_payload sample_toPayLoad sample_RecordsService ''6'' ''99''
      (Record_zero\<lparr>Record.Remark := ''x''\<rparr>) ''record_id'' = Some [''99''] \<and>
    RecordsService_Remark_payload sample_toPayLoad sample_RecordsService ''6'' ''99''
      (Record_zero\<lparr>Record.Remark := ''x''\<rparr>) ''remark'' = Some [''x'']) \<and>
   (DomainsService_Create_payload sample_toPayLoad sample_DomainsService
      (sample_Domain\<lparr>GroupID := ''1'', IsMark := ''yes''\<rparr>) ''group_id'' = Some [''1''] \<and>
    DomainsService_Create_payload sample_toPayLoad sample_DomainsService
      (sample_Domain\<lparr>GroupID := ''1'', IsMark := ''yes''\<rparr>) ''is_mark'' = Some [''yes''])"
  using guarded_fields_sent_iff_nonempty
    [where toPayLoad = sample_toPayLoad and lr = "sample_DomainLogRequest ''6'' ''''"
       and dlr = sample_DomainListRequest and rlr = "sample_RecordListRequest ''12345'' ''''"
       and ds = sample_DomainsService and d = sample_Domain and s = sample_RecordsService
       and domain = "''6''" and recordID = "''99''" and r = sample_Record]
    guarded_fields_sent_iff_nonempty
    [where toPayLoad = sample_toPayLoad
       and lr = "sample_DomainLogRequest '''' ''example.com''"
       and dlr = sample_DomainListRequest and rlr = "sample_RecordListRequest ''12345'' ''''"
       and ds = sample_DomainsService
       and d = "sample_Domain\<lparr>GroupID := ''1'', IsMark := ''yes''\<rparr>"
       and s = sample_RecordsService and domain = "''6''" and recordID = "''99''"
       and r = "Record_zero\<lparr>Record.Remark := ''x''\<rparr>"]
  by (simp add: optional_field_def sample_toPayLoad_def sample_DomainLogRequest_def
      sample_DomainListRequest_def sample_RecordListRequest_def sample_DomainsService_def
      sample_RecordsService_def sample_Client_def sample_Domain_def sample_Record_def
      Domain_zero_def Record_zero_def Itoa_def nat_digits.simps)

text \<open>
  Claim C3, as stated, fails for \<^verbatim>\<open>RecordListRequest\<close>: with \<^verbatim>\<open>DomainId\<close> "12345" and
  \<^verbatim>\<open>Domain\<close> "example.com" the payload has both keys, \<^verbatim>\<open>domain_id\<close> and \<^verbatim>\<open>domain\<close>.
\<close>

theorem record_list_sends_id_and_name:
  "RecordListRequest.DomainId (sample_RecordListRequest ''12345'' ''example.com'') \<noteq> '''' \<and>
   sample_toPayLoad
       (RecordListRequest.CommonParams (sample_RecordListRequest ''12345'' ''example.com''))
       ''domain'' = None \<and>
   RecordListRequest_toPayLOad sample_toPayLoad
       (sample_RecordListRequest ''12345'' ''example.com'') ''domain_id'' = Some [''12345''] \<and>
   RecordListRequest_toPayLOad sample_toPayLoad
       (sample_RecordListRequest ''12345'' ''example.com'') ''domain'' = Some [''example.com'']"
  by (simp add: RecordListRequest_id_and_name sample_RecordListRequest_def sample_toPayLoad_def
      Values_index_def)

text \<open>
  Claim C3, amended. \<^verbatim>\<open>DomainLogRequest.toPayLoad\<close> prefers the id: when \<^verbatim>\<open>DomainId\<close>
  is not empty it sends \<^verbatim>\<open>domain_id\<close> and adds no \<^verbatim>\<open>domain\<close> key, whatever
  \<^verbatim>\<open>Domain\<close> is; when \<^verbatim>\<open>DomainId\<close> is empty it adds no \<^verbatim>\<open>domain_id\<close> key and sends
  a non-empty \<^verbatim>\<open>Domain\<close> under \<^verbatim>\<open>domain\<close>. \<^verbatim>\<open>RecordListRequest.toPayLOad\<close> has no
  such precedence: it appends \<^verbatim>\<open>domain_id\<close> exactly when \<^verbatim>\<open>DomainId\<close> is not empty
  and \<^verbatim>\<open>domain\<close> exactly when \<^verbatim>\<open>Domain\<close> is not empty, each whatever the other is, so
  it sends both when both are set.
\<close>

theorem id_before_name_in_domain_log_only:
  fixes toPayLoad :: "'c \<Rightarrow> Values"
    and lr :: "'c DomainLogRequest" and rlr :: "'c RecordListRequest"
  defines "log \<equiv> DomainLogRequest_toPayLoad toPayLoad lr"
    and "logc \<equiv> toPayLoad (DomainLogRequest.CommonParams lr)"
    and "rl \<equiv> RecordListRequest_toPayLOad toPayLoad rlr"
    and "rlc \<equiv> toPayLoad (RecordListRequest.CommonParams rlr)"
  shows
   "(DomainLogRequest.DomainId lr \<noteq> '''' \<longrightarrow>
       log ''domain_id'' = Some [DomainLogRequest.DomainId lr] \<and>
       log ''domain'' = logc ''domain'') \<and>
    (DomainLogRequest.DomainId lr = '''' \<longrightarrow>
       log ''domain_id'' = logc ''domain_id'' \<and>
       (DomainLogRequest.Domain lr \<noteq> '''' \<longrightarrow>
          log ''domain'' = Some [DomainLogRequest.Domain lr])) \<and>
    (RecordListRequest.DomainId rlr \<noteq> '''' \<longrightarrow>
       rl ''domain_id'' = Some (Values_index rlc ''domain_id'' @ [RecordListRequest.DomainId rlr])) \<and>
    (RecordListRequest.DomainId rlr = '''' \<longrightarrow> rl ''domain_id'' = rlc ''domain_id'') \<and>
    (RecordListRequest.Domain rlr \<noteq> '''' \<longrightarrow>
       rl ''domain'' = Some (Values_index rlc ''domain'' @ [RecordListRequest.Domain rlr])) \<and>
    (RecordListRequest.Domain rlr = '''' \<longrightarrow> rl ''domain'' = rlc ''domain'')"
  unfolding log_def logc_def rl_def rlc_def
  by (simp add: DomainLogRequest_fields RecordListRequest_id_and_name)

theorem id_before_name_in_domain_log_only_witness:
  "DomainLogRequest_toPayLoad sample_toPayLoad (sample_DomainLogRequest ''6'' ''example.com'')
     ''domain_id'' = Some [''6''] \<and>
   DomainLogRequest_toPayLoad sample_toPayLoad (sample_DomainLogRequest ''6'' ''example.com'')
     ''domain'' = None \<and>
   DomainLogRequest_toPayLoad sample_toPayLoad (sample_DomainLogRequest '''' ''example.com'')
     ''domain_id'' = None \<and>
   DomainLogRequest_toPayLoad sample_toPayLoad (sample_DomainLogRequest '''' ''example.com'')
     ''domain'' = Some [''example.com''] \<and>
   RecordListRequest_toPayLOad sample_toPayLoad (sample_RecordListRequest ''6'' '''')
     ''domain_id'' = Some [''6''] \<and>
   RecordListRequest_toPayLOad sample_toPayLoad (sample_RecordListRequest ''6'' '''')
     ''domain'' = None \<and>
   RecordListRequest_toPayLOad sample_toPayLoad (sample_RecordListRequest '''' ''example.com'')
     ''domain_id'' = None \<and>
   RecordListRequest_toPayLOad sample_toPayLoad (sample_RecordListRequest '''' ''example.com'')
     ''domain'' = Some [''example.com'']"
  using id_before_name_in_domain_log_only
    [where toPayLoad = sample_toPayLoad and lr = "sample_DomainLogRequest ''6'' ''example.com''"
       and rlr = "sample_RecordListRequest ''6'' ''''"]
    id_before_name_in_domain_log_only
    [where toPayLoad = sample_toPayLoad and lr = "sample_DomainLogRequest '''' ''example.com''"
       and rlr = "sample_RecordListRequest '''' ''example.com''"]
  by (simp add: sample_toPayLoad_def sample_DomainLogRequest_def sample_RecordListRequest_def
      Values_index_def)

text \<open>
  Claim C4. In each operation that checks the status (\<^verbatim>\<open>DomainsService.List\<close> and
  \<^verbatim>\<open>Log\<close>, and the six operations of \<^verbatim>\<open>RecordsService\<close>): when the transport gives
  no error and the status code of the envelope is not "1", the operation gives an error
  whose text is "could not get domains: " followed by the status message, for
  \<^verbatim>\<open>DomainsService.List\<close> and every record operation, and "could not get domain logs: "
  followed by the status message for \<^verbatim>\<open>Log\<close>.
\<close>

theorem status_failure_error_text:
  "(\<forall>w res. postDL methodDomainList (DomainListRequest_toPayLOad toPayLoad dlr)
        domainListWrapper_zero = (w, res, None) \<longrightarrow>
      Code (domainListWrapper.Status w) \<noteq> ''1'' \<longrightarrow>
      snd (snd (DomainsService_List toPayLoad postDL dlr)) =
        Some (Error (''could not get domains: '' @ Message (domainListWrapper.Status w)))) \<and>
   (\<forall>w res. postLog methodDomainLog (DomainLogRequest_toPayLoad toPayLoad lr)
        domainLogWrapper_zero = (w, res, None) \<longrightarrow>
      Code (domainLogWrapper.Status w) \<noteq> ''1'' \<longrightarrow>
      snd (DomainsService_Log toPayLoad postLog lr) =
        Some (Error (''could not get domain logs: '' @ Message (domainLogWrapper.Status w)))) \<and>
   (\<forall>w res. postRs methodRecordList (RecordListRequest_toPayLOad toPayLoad rlr)
        recordsWrapper_zero = (w, res, None) \<longrightarrow>
      Code (recordsWrapper.Status w) \<noteq> ''1'' \<longrightarrow>
      snd (snd (RecordsService_List toPayLoad postRs rlr)) =
        Some (Error (''could not get domains: '' @ Message (recordsWrapper.Status w)))) \<and>
   (\<forall>w res. postR methodRecordCreate (RecordsService_Create_payload toPayLoad s domain r)
        recordWrapper_zero = (w, res, None) \<longrightarrow>
      Code (recordWrapper.Status w) \<noteq> ''1'' \<longrightarrow>
      snd (snd (RecordsService_Create toPayLoad postR s domain r)) =
        Some (Error (''could not get domains: '' @ Message (recordWrapper.Status w)))) \<and>
   (\<forall>w res. postR methodRecordInfo (RecordsService_id_payload toPayLoad s domain rid)
        recordWrapper_zero = (w, res, None) \<longrightarrow>
      Code (recordWrapper.Status w) \<noteq> ''1'' \<longrightarrow>
      snd (snd (RecordsService_Get toPayLoad postR s domain rid)) =
        Some (Error (''could not get domains: '' @ Message (recordWrapper.Status w)))) \<and>
   (\<forall>w res. postR methodRecordModify (RecordsService_Update_payload toPayLoad s domain rid r)
        recordWrapper_zero = (w, res, None) \<longrightarrow>
      Code (recordWrapper.Status w) \<noteq> ''1'' \<longrightarrow>
      snd (snd (RecordsService_Update toPayLoad postR s domain rid r)) =
        Some (Error (''could not get domains: '' @ Message (recordWrapper.Status w)))) \<and>
   (\<forall>w res. postR methodRecordRemark (RecordsService_Remark_payload toPayLoad s domain rid r)
        recordWrapper_zero = (w, res, None) \<longrightarrow>
      Code (recordWrapper.Status w) \<noteq> ''1'' \<longrightarrow>
      snd (snd (RecordsService_Remark toPayLoad postR s domain rid r)) =
        Some (Error (''could not get domains: '' @ Message (recordWrapper.Status w)))) \<and>
   (\<forall>w res. postR methodRecordRemove (RecordsService_id_payload toPayLoad s domain rid)
        recordWrapper_zero = (w, res, None) \<longrightarrow>
      Code (recordWrapper.Status w) \<noteq> ''1'' \<longrightarrow>
      snd (RecordsService_Delete toPayLoad postR s domain rid) =
        Some (Error (''could not get domains: '' @ Message (recordWrapper.Status w))))"
  by (simp add: DomainsService_List_result DomainsService_Log_result RecordsService_List_result
      RecordsService_Create_result RecordsService_Get_result RecordsService_Update_result
      RecordsService_Remark_result RecordsService_Delete_result)

theorem status_failure_error_text_witness:
  "Code failed_Status \<noteq> ''1'' \<and>
   snd (snd (DomainsService_List sample_toPayLoad
       (post_reply (sample_domainListWrapper failed_Status) (Some sample_Response) None)
       sample_DomainListRequest))
     = Some (Error ''could not get domains: Invalid domain id'') \<and>
   snd (DomainsService_Log sample_toPayLoad
       (post_reply (sample_domainLogWrapper failed_Status) (Some sample_Response) None)
       (sample_DomainLogRequest ''6'' ''''))
     = Some (Error ''could not get domain logs: Invalid domain id'') \<and>
   snd (snd (RecordsService_List sample_toPayLoad
       (post_reply (sample_recordsWrapper failed_Status) (Some sample_Response) None)
       (sample_RecordListRequest ''6'' '''')))
     = Some (Error ''could not get domains: Invalid domain id'') \<and>
   snd (snd (RecordsService_Create sample_toPayLoad
       (post_reply (sample_recordWrapper failed_Status) (Some sample_Response) None)
       sample_RecordsService ''6'' sample_Record))
     = Some (Error ''could not get domains: Invalid domain id'') \<and>
   snd (snd (RecordsService_Get sample_toPayLoad
       (post_reply (sample_recordWrapper failed_Status) (Some sample_Response) None)
       sample_RecordsService ''6'' ''16894439''))
     = Some (Error ''could not get domains: Invalid domain id'') \<and>
   snd (snd (RecordsService_Update sample_toPayLoad
       (post_reply (sample_recordWrapper failed_Status) (Some sample_Response) None)
       sample_RecordsService ''6'' ''16894439'' sample_Record))
     = Some (Error ''could not get domains: Invalid domain id'') \<and>
   snd (snd (RecordsService_Remark sample_toPayLoad
       (post_reply (sample_recordWrapper failed_Status) (Some sample_Response) None)
       sample_RecordsService ''6'' ''16894439'' sample_Record))
     = Some (Error ''could not get domains: Invalid domain id'') \<and>
   snd (RecordsService_Delete sample_toPayLoad
       (post_reply (sample_recordWrapper failed_Status) (Some sample_Response) None)
       sample_RecordsService ''6'' ''16894439'')
     = Some (Error ''could not get domains: Invalid domain id'')"
  using status_failure_error_text
    [where toPayLoad = sample_toPayLoad
       and postDL = "post_reply (sample_domainListWrapper failed_Status) (Some sample_Response) None"
       and postLog = "post_reply (sample_domainLogWrapper failed_Status) (Some sample_Response) None"
       and postRs = "post_reply (sample_recordsWrapper failed_Status) (Some sample_Response) None"
       and postR = "post_reply (sample_recordWrapper failed_Status) (Some sample_Response) None"
       and dlr = sample_DomainListRequest and lr = "sample_DomainLogRequest ''6'' ''''"
       and rlr = "sample_RecordListRequest ''6'' ''''" and s = sample_RecordsService
       and domain = "''6''" and rid = "''16894439''" and r = sample_Record]
  by (simp add: post_reply_def sample_domainListWrapper_def sample_domainLogWrapper_def
      sample_recordsWrapper_def sample_recordWrapper_def failed_Status_def)

text \<open>
  Claim C5. In the payloads of \<^verbatim>\<open>RecordsService.Update\<close> and \<^verbatim>\<open>Remark\<close>: when the
  template's \<^verbatim>\<open>ID\<close> is not empty, \<^verbatim>\<open>record_id\<close> gets that one value, whatever the
  argument \<^verbatim>\<open>recordID\<close> is; when the template's \<^verbatim>\<open>ID\<close> is empty and \<^verbatim>\<open>recordID\<close> is
  not, \<^verbatim>\<open>record_id\<close> gets \<^verbatim>\<open>recordID\<close>; when both are empty, no \<^verbatim>\<open>record_id\<close> is
  added. In each case at most one value is appended to what the common parameters carry
  under that key, so the two sources are never both sent.
\<close>

theorem template_id_before_record_id:
  fixes toPayLoad :: "'c \<Rightarrow> Values"
    and s :: "'c RecordsService" and domain recordID :: string and r :: Record
  defines "base \<equiv> toPayLoad (Client.CommonParams (RecordsService.client s))"
    and "up \<equiv> RecordsService_Update_payload toPayLoad s domain recordID r"
    and "rm \<equiv> RecordsService_Remark_payload toPayLoad s domain recordID r"
  shows
   "(Record.ID r \<noteq> '''' \<longrightarrow>
       up ''record_id'' = Some (Values_index base ''record_id'' @ [Record.ID r]) \<and>
       rm ''record_id'' = Some (Values_index base ''record_id'' @ [Record.ID r])) \<and>
    (Record.ID r = '''' \<and> recordID \<noteq> '''' \<longrightarrow>
       up ''record_id'' = Some (Values_index base ''record_id'' @ [recordID]) \<and>
       rm ''record_id'' = Some (Values_index base ''record_id'' @ [recordID])) \<and>
    (Record.ID r = '''' \<and> recordID = '''' \<longrightarrow>
       up ''record_id'' = base ''record_id'' \<and> rm ''record_id'' = base ''record_id'')"
  unfolding base_def up_def rm_def
  by (simp add: RecordsService_Update_record_id RecordsService_Remark_record_id)

theorem template_id_before_record_id_witness:
  "RecordsService_Update_payload sample_toPayLoad sample_RecordsService ''6'' ''99''
     (Record_zero\<lparr>Record.Remark := ''x''\<rparr>) ''record_id'' = Some [''99''] \<and>
   RecordsService_Remark_payload sample_toPayLoad sample_RecordsService ''6'' ''99''
     (Record_zero\<lparr>Record.Remark := ''x''\<rparr>) ''record_id'' = Some [''99''] \<and>
   RecordsService_Update_payload sample_toPayLoad sample_RecordsService ''6'' ''99''
     sample_Record ''record_id'' = Some [''16894439''] \<and>
   RecordsService_Remark_payload sample_toPayLoad sample_RecordsService ''6'' ''99''
     sample_Record ''record_id'' = Some [''16894439''] \<and>
   RecordsService_Update_payload sample_toPayLoad sample_RecordsService ''6'' ''''
     Record_zero ''record_id'' = None \<and>
   RecordsService_Remark_payload sample_toPayLoad sample_RecordsService ''6'' ''''
     Record_zero ''record_id'' = None"
  using template_id_before_record_id
    [where toPayLoad = sample_toPayLoad and s = sample_RecordsService and domain = "''6''"
       and recordID = "''99''" and r = "Record_zero\<lparr>Record.Remark := ''x''\<rparr>"]
    template_id_before_record_id
    [where toPayLoad = sample_toPayLoad and s = sample_RecordsService and domain = "''6''"
       and recordID = "''99''" and r = sample_Record]
    template_id_before_record_id
    [where toPayLoad = sample_toPayLoad and s = sample_RecordsService and domain = "''6''"
       and recordID = "''''" and r = Record_zero]
  by (simp add: sample_toPayLoad_def sample_Record_def Record_zero_def Values_index_def)

text \<open>
  Claim C6. \<^verbatim>\<open>RecordsService.Update\<close> and \<^verbatim>\<open>Remark\<close>: when the transport gives no
  error and the status code is not "1", the operation gives the record of the envelope,
  as decoded, together with an error.
\<close>

theorem update_remark_partial_record:
  "(\<forall>w res. post methodRecordModify (RecordsService_Update_payload toPayLoad s domain rid r)
        recordWrapper_zero = (w, res, None) \<longrightarrow>
      Code (recordWrapper.Status w) \<noteq> ''1'' \<longrightarrow>
      fst (RecordsService_Update toPayLoad post s domain rid r) = Record w \<and>
      snd (snd (RecordsService_Update toPayLoad post s domain rid r)) \<noteq> None) \<and>
   (\<forall>w res. post methodRecordRemark (RecordsService_Remark_payload toPayLoad s domain rid r)
        recordWrapper_zero = (w, res, None) \<longrightarrow>
      Code (recordWrapper.Status w) \<noteq> ''1'' \<longrightarrow>
      fst (RecordsService_Remark toPayLoad post s domain rid r) = Record w \<and>
      snd (snd (RecordsService_Remark toPayLoad post s domain rid r)) \<noteq> None)"
  by (simp add: RecordsService_Update_result RecordsService_Remark_result)

theorem update_remark_partial_record_witness:
  "Code failed_Status \<noteq> ''1'' \<and> sample_Record \<noteq> Record_zero \<and>
   fst (RecordsService_Update sample_toPayLoad
       (post_reply (sample_recordWrapper failed_Status) (Some sample_Response) None)
       sample_RecordsService ''6'' ''16894439'' Record_zero) = sample_Record \<and>
   snd (snd (RecordsService_Update sample_toPayLoad
       (post_reply (sample_recordWrapper failed_Status) (Some sample_Response) None)
       sample_RecordsService ''6'' ''16894439'' Record_zero)) \<noteq> None \<and>
   fst (RecordsService_Remark sample_toPayLoad
       (post_reply (sample_recordWrapper failed_Status) (Some sample_Response) None)
       sample_RecordsService ''6'' ''16894439'' Record_zero) = sample_Record \<and>
   snd (snd (RecordsService_Remark sample_toPayLoad
       (post_reply (sample_recordWrapper failed_Status) (Some sample_Response) None)
       sample_RecordsService ''6'' ''16894439'' Record_zero)) \<noteq> None"
  using update_remark_partial_record
    [where toPayLoad = sample_toPayLoad
       and post = "post_reply (sample_recordWrapper failed_Status) (Some sample_Response) None"
       and s = sample_RecordsService and domain = "''6''" and rid = "''16894439''"
       and r = Record_zero]
  by (simp add: post_reply_def sample_recordWrapper_def failed_Status_def sample_Record_def
      Record_zero_def)

text \<open>
  Claim C7. In every operation: when the transport gives an error \<open>e\<close>, the operation
  gives that same error, the entity is the zero value (the nil slice, the zero domain or
  the zero record) and the descriptor is the one the transport gave; the envelope \<open>w\<close>,
  and so its status code, has no part in the result.
\<close>

theorem transport_error_returned:
  "(\<forall>w res e. postDL methodDomainList (DomainListRequest_toPayLOad toPayLoad dlr)
        domainListWrapper_zero = (w, res, Some e) \<longrightarrow>
      DomainsService_List toPayLoad postDL dlr = (None, res, Some e)) \<and>
   (\<forall>w res e. postD methodDomainCreate (DomainsService_Create_payload toPayLoad ds d)
        domainWrapper_zero = (w, res, Some e) \<longrightarrow>
      DomainsService_Create toPayLoad postD ds d = (Domain_zero, res, Some e)) \<and>
   (\<forall>w res e. postD methodDomainInfo (DomainsService_id_payload toPayLoad ds i)
        domainWrapper_zero = (w, res, Some e) \<longrightarrow>
      DomainsService_Get toPayLoad postD ds i = (Domain_zero, res, Some e)) \<and>
   (\<forall>w res e. postD methodDomainRemove (DomainsService_id_payload toPayLoad ds i)
        domainWrapper_zero = (w, res, Some e) \<longrightarrow>
      DomainsService_Delete toPayLoad postD ds i = (res, Some e)) \<and>
   (\<forall>w res e. postLog methodDomainLog (DomainLogRequest_toPayLoad toPayLoad lr)
        domainLogWrapper_zero = (w, res, Some e) \<longrightarrow>
      DomainsService_Log toPayLoad postLog lr = (None, Some e)) \<and>
   (\<forall>w res e. postRs methodRecordList (RecordListRequest_toPayLOad toPayLoad rlr)
        recordsWrapper_zero = (w, res, Some e) \<longrightarrow>
      RecordsService_List toPayLoad postRs rlr = (None, res, Some e)) \<and>
   (\<forall>w res e. postR methodRecordCreate (RecordsService_Create_payload toPayLoad s domain r)
        recordWrapper_zero = (w, res, Some e) \<longrightarrow>
      RecordsService_Create toPayLoad postR s domain r = (Record_zero, res, Some e)) \<and>
   (\<forall>w res e. postR methodRecordInfo (RecordsService_id_payload toPayLoad s domain rid)
        recordWrapper_zero = (w, res, Some e) \<longrightarrow>
      RecordsService_Get toPayLoad postR s domain rid = (Record_zero, res, Some e)) \<and>
   (\<forall>w res e. postR methodRecordModify (RecordsService_Update_payload toPayLoad s domain rid r)
        recordWrapper_zero = (w, res, Some e) \<longrightarrow>
      RecordsService_Update toPayLoad postR s domain rid r = (Record_zero, res, Some e)) \<and>
   (\<forall>w res e. postR methodRecordRemark (RecordsService_Remark_payload toPayLoad s domain rid r)
        recordWrapper_zero = (w, res, Some e) \<longrightarrow>
      RecordsService_Remark toPayLoad postR s domain rid r = (Record_zero, res, Some e)) \<and>
   (\<forall>w res e. postR methodRecordRemove (RecordsService_id_payload toPayLoad s domain rid)
        recordWrapper_zero = (w, res, Some e) \<longrightarrow>
      RecordsService_Delete toPayLoad postR s domain rid = (res, Some e))"
  by (simp add: DomainsService_List_result DomainsService_Create_result
      DomainsService_Get_result DomainsService_Delete_result DomainsService_Log_result
      RecordsService_List_result RecordsService_Create_result RecordsService_Get_result
      RecordsService_Update_result RecordsService_Remark_result RecordsService_Delete_result)

theorem transport_error_returned_witness:
  "DomainsService_List sample_toPayLoad
       (post_reply (sample_domainListWrapper failed_Status) (Some sample_Response)
          (Some (Error ''unexpected end of JSON input'')))
       sample_DomainListRequest
     = (None, Some sample_Response, Some (Error ''unexpected end of JSON input'')) \<and>
   DomainsService_Create sample_toPayLoad
       (post_reply (sample_domainWrapper success_Status) (Some sample_Response)
          (Some (Error ''unexpected end of JSON input'')))
       sample_DomainsService sample_Domain
     = (Domain_zero, Some sample_Response, Some (Error ''unexpected end of JSON input'')) \<and>
   DomainsService_Get sample_toPayLoad
       (post_reply (sample_domainWrapper success_Status) (Some sample_Response)
          (Some (Error ''unexpected end of JSON input'')))
       sample_DomainsService 6
     = (Domain_zero, Some sample_Response, Some (Error ''unexpected end of JSON input'')) \<and>
   DomainsService_Delete sample_toPayLoad
       (post_reply (sample_domainWrapper success_Status) (Some sample_Response)
          (Some (Error ''unexpected end of JSON input'')))
       sample_DomainsService 6
     = (Some sample_Response, Some (Error ''unexpected end of JSON input'')) \<and>
   DomainsService_Log sample_toPayLoad
       (post_reply (sample_domainLogWrapper success_Status) (Some sample_Response)
          (Some (Error ''unexpected end of JSON input'')))
       (sample_DomainLogRequest ''6'' '''')
     = (None, Some (Error ''unexpected end of JSON input'')) \<and>
   RecordsService_List sample_toPayLoad
       (post_reply (sample_recordsWrapper success_Status) (Some sample_Response)
          (Some (Error ''unexpected end of JSON input'')))
       (sample_RecordListRequest ''6'' '''')
     = (None, Some sample_Response, Some (Error ''unexpected end of JSON input'')) \<and>
   RecordsService_Create sample_toPayLoad
       (post_reply (sample_recordWrapper success_Status) (Some sample_Response)
          (Some (Error ''unexpected end of JSON input'')))
       sample_RecordsService ''6'' sample_Record
     = (Record_zero, Some sample_Response, Some (Error ''unexpected end of JSON input'')) \<and>
   RecordsService_Get sample_toPayLoad
       (post_reply (sample_recordWrapper success_Status) (Some sample_Response)
          (Some (Error ''unexpected end of JSON input'')))
       sample_RecordsService ''6'' ''16894439''
     = (Record_zero, Some sample_Response, Some (Error ''unexpected end of JSON input'')) \<and>
   RecordsService_Update sample_toPayLoad
       (post_reply (sample_recordWrapper success_Status) (Some sample_Response)
          (Some (Error ''unexpected end of JSON input'')))
       sample_RecordsService ''6'' ''16894439'' sample_Record
     = (Record_zero, Some sample_Response, Some (Error ''unexpected end of JSON input'')) \<and>
   RecordsService_Remark sample_toPayLoad
       (post_reply (sample_recordWrapper success_Status) (Some sample_Response)
          (Some (Error ''unexpected end of JSON input'')))
       sample_RecordsService ''6'' ''16894439'' sample_Record
     = (Record_zero, Some sample_Response, Some (Error ''unexpected end of JSON input'')) \<and>
   RecordsService_Delete sample_toPayLoad
       (post_reply (sample_recordWrapper success_Status) (Some sample_Response)
          (Some (Error ''unexpected end of JSON input'')))
       sample_RecordsService ''6'' ''16894439''
     = (Some sample_Response, Some (Error ''unexpected end of JSON input''))"
  using transport_error_returned
    [where toPayLoad = sample_toPayLoad
       and postDL = "post_reply (sample_domainListWrapper failed_Status) (Some sample_Response)
          (Some (Error ''unexpected end of JSON input''))"
       and postD = "post_reply (sample_domainWrapper success_Status) (Some sample_Response)
          (Some (Error ''unexpected end of JSON input''))"
       and postLog = "post_reply (sample_domainLogWrapper success_Status) (Some sample_Response)
          (Some (Error ''unexpected end of JSON input''))"
       and postRs = "post_reply (sample_recordsWrapper success_Status) (Some sample_Response)
          (Some (Error ''unexpected end of JSON input''))"
       and postR = "post_reply (sample_recordWrapper success_Status) (Some sample_Response)
          (Some (Error ''unexpected end of JSON input''))"
       and dlr = sample_DomainListRequest and lr = "sample_DomainLogRequest ''6'' ''''"
       and rlr = "sample_RecordListRequest ''6'' ''''" and s = sample_RecordsService
       and ds = sample_DomainsService and d = sample_Domain and i = 6
       and domain = "''6''" and rid = "''16894439''" and r = sample_Record]
  by (simp add: post_reply_def)

text \<open>
  Claim C8. In every operation: when the transport gives no error and the status code of
  the envelope is "1", the operation gives the payload field of the envelope (the domains,
  the domain, the log lines, the records or the record), the descriptor of the transport
  where the operation returns one, and no error.
\<close>

theorem success_returns_payload_field:
  "(\<forall>w res. postDL methodDomainList (DomainListRequest_toPayLOad toPayLoad dlr)
        domainListWrapper_zero = (w, res, None) \<longrightarrow>
      Code (domainListWrapper.Status w) = ''1'' \<longrightarrow>
      DomainsService_List toPayLoad postDL dlr = (Domains w, res, None)) \<and>
   (\<forall>w res. postD methodDomainCreate (DomainsService_Create_payload toPayLoad ds d)
        domainWrapper_zero = (w, res, None) \<longrightarrow>
      Code (domainWrapper.Status w) = ''1'' \<longrightarrow>
      DomainsService_Create toPayLoad postD ds d = (domainWrapper.Domain w, res, None)) \<and>
   (\<forall>w res. postD methodDomainInfo (DomainsService_id_payload toPayLoad ds i)
        domainWrapper_zero = (w, res, None) \<longrightarrow>
      Code (domainWrapper.Status w) = ''1'' \<longrightarrow>
      DomainsService_Get toPayLoad postD ds i = (domainWrapper.Domain w, res, None)) \<and>
   (\<forall>w res. postD methodDomainRemove (DomainsService_id_payload toPayLoad ds i)
        domainWrapper_zero = (w, res, None) \<longrightarrow>
      Code (domainWrapper.Status w) = ''1'' \<longrightarrow>
      DomainsService_Delete toPayLoad postD ds i = (res, None)) \<and>
   (\<forall>w res. postLog methodDomainLog (DomainLogRequest_toPayLoad toPayLoad lr)
        domainLogWrapper_zero = (w, res, None) \<longrightarrow>
      Code (domainLogWrapper.Status w) = ''1'' \<longrightarrow>
      DomainsService_Log toPayLoad postLog lr = (Log w, None)) \<and>
   (\<forall>w res. postRs methodRecordList (RecordListRequest_toPayLOad toPayLoad rlr)
        recordsWrapper_zero = (w, res, None) \<longrightarrow>
      Code (recordsWrapper.Status w) = ''1'' \<longrightarrow>
      RecordsService_List toPayLoad postRs rlr = (recordsWrapper.Records w, res, None)) \<and>
   (\<forall>w res. postR methodRecordCreate (RecordsService_Create_payload toPayLoad s domain r)
        recordWrapper_zero = (w, res, None) \<longrightarrow>
      Code (recordWrapper.Status w) = ''1'' \<longrightarrow>
      RecordsService_Create toPayLoad postR s domain r = (Record w, res, None)) \<and>
   (\<forall>w res. postR methodRecordInfo (RecordsService_id_payload toPayLoad s domain rid)
        recordWrapper_zero = (w, res, None) \<longrightarrow>
      Code (recordWrapper.Status w) = ''1'' \<longrightarrow>
      RecordsService_Get toPayLoad postR s domain rid = (Record w, res, None)) \<and>
   (\<forall>w res. postR methodRecordModify (RecordsService_Update_payload toPayLoad s domain rid r)
        recordWrapper_zero = (w, res, None) \<longrightarrow>
      Code (recordWrapper.Status w) = ''1'' \<longrightarrow>
      RecordsService_Update toPayLoad postR s domain rid r = (Record w, res, None)) \<and>
   (\<forall>w res. postR methodRecordRemark (RecordsService_Remark_payload toPayLoad s domain rid r)
        recordWrapper_zero = (w, res, None) \<longrightarrow>
      Code (recordWrapper.Status w) = ''1'' \<longrightarrow>
      RecordsService_Remark toPayLoad postR s domain rid r = (Record w, res, None)) \<and>
   (\<forall>w res. postR methodRecordRemove (RecordsService_id_payload toPayLoad s domain rid)
        recordWrapper_zero = (w, res, None) \<longrightarrow>
      Code (recordWrapper.Status w) = ''1'' \<longrightarrow>
      RecordsService_Delete toPayLoad postR s domain rid = (res, None))"
  by (simp add: DomainsService_List_result DomainsService_Create_result
      DomainsService_Get_result DomainsService_Delete_result DomainsService_Log_result
      RecordsService_List_result RecordsService_Create_result RecordsService_Get_result
      RecordsService_Update_result RecordsService_Remark_result RecordsService_Delete_result)

theorem success_returns_payload_field_witness:
  "Code success_Status = ''1'' \<and>
   DomainsService_List sample_toPayLoad
       (post_reply (sample_domainListWrapper success_Status) (Some sample_Response) None)
       sample_DomainListRequest
     = (Some [sample_Domain], Some sample_Response, None) \<and>
   DomainsService_Create sample_toPayLoad
       (post_reply (sample_domainWrapper success_Status) (Some sample_Response) None)
       sample_DomainsService sample_Domain
     = (sample_Domain, Some sample_Response, None) \<and>
   DomainsService_Get sample_toPayLoad
       (post_reply (sample_domainWrapper success_Status) (Some sample_Response) None)
       sample_DomainsService 6
     = (sample_Domain, Some sample_Response, None) \<and>
   DomainsService_Delete sample_toPayLoad
       (post_reply (sample_domainWrapper success_Status) (Some sample_Response) None)
       sample_DomainsService 6
     = (Some sample_Response, None) \<and>
   DomainsService_Log sample_toPayLoad
       (post_reply (sample_domainLogWrapper success_Status) (Some sample_Response) None)
       (sample_DomainLogRequest ''6'' '''')
     = (Some [''2015-01-01 (1.2.3.4) added a record''], None) \<and>
   RecordsService_List sample_toPayLoad
       (post_reply (sample_recordsWrapper success_Status) (Some sample_Response) None)
       (sample_RecordListRequest ''6'' '''')
     = (Some [sample_Record], Some sample_Response, None) \<and>
   RecordsService_Create sample_toPayLoad
       (post_reply (sample_recordWrapper success_Status) (Some sample_Response) None)
       sample_RecordsService ''6'' sample_Record
     = (sample_Record, Some sample_Response, None) \<and>
   RecordsService_Get sample_toPayLoad
       (post_reply (sample_recordWrapper success_Status) (Some sample_Response) None)
       sample_RecordsService ''6'' ''16894439''
     = (sample_Record, Some sample_Response, None) \<and>
   RecordsService_Update sample_toPayLoad
       (post_reply (sample_recordWrapper success_Status) (Some sample_Response) None)
       sample_RecordsService ''6'' ''16894439'' sample_Record
     = (sample_Record, Some sample_Response, None) \<and>
   RecordsService_Remark sample_toPayLoad
       (post_reply (sample_recordWrapper success_Status) (Some sample_Response) None)
       sample_RecordsService ''6'' ''16894439'' sample_Record
     = (sample_Record, Some sample_Response, None) \<and>
   RecordsService_Delete sample_toPayLoad
       (post_reply (sample_recordWrapper success_Status) (Some sample_Response) None)
       sample_RecordsService ''6'' ''16894439''
     = (Some sample_Response, None)"
  using success_returns_payload_field
    [where toPayLoad = sample_toPayLoad
       and postDL = "post_reply (sample_domainListWrapper success_Status) (Some sample_Response) None"
       and postD = "post_reply (sample_domainWrapper success_Status) (Some sample_Response) None"
       and postLog = "post_reply (sample_domainLogWrapper success_Status) (Some sample_Response) None"
       and postRs = "post_reply (sample_recordsWrapper success_Status) (Some sample_Response) None"
       and postR = "post_reply (sample_recordWrapper success_Status) (Some sample_Response) None"
       and dlr = sample_DomainListRequest and lr = "sample_DomainLogRequest ''6'' ''''"
       and rlr = "sample_RecordListRequest ''6'' ''''" and s = sample_RecordsService
       and ds = sample_DomainsService and d = sample_Domain and i = 6
       and domain = "''6''" and rid = "''16894439''" and r = sample_Record]
  by (simp add: post_reply_def sample_domainListWrapper_def sample_domainLogWrapper_def
      sample_recordsWrapper_def sample_recordWrapper_def sample_domainWrapper_def
      success_Status_def)

text \<open>
  Claim C9. \<^verbatim>\<open>RecordsService.Create\<close> and \<^verbatim>\<open>Get\<close> too: when the transport gives no
  error and the status code is not "1", the operation gives the record of the envelope,
  as decoded, together with an error.
\<close>

theorem create_get_partial_record:
  "(\<forall>w res. post methodRecordCreate (RecordsService_Create_payload toPayLoad s domain r)
        recordWrapper_zero = (w, res, None) \<longrightarrow>
      Code (recordWrapper.Status w) \<noteq> ''1'' \<longrightarrow>
      fst (RecordsService_Create toPayLoad post s domain r) = Record w \<and>
      snd (snd (RecordsService_Create toPayLoad post s domain r)) \<noteq> None) \<and>
   (\<forall>w res. post methodRecordInfo (RecordsService_id_payload toPayLoad s domain rid)
        recordWrapper_zero = (w, res, None) \<longrightarrow>
      Code (recordWrapper.Status w) \<noteq> ''1'' \<longrightarrow>
      fst (RecordsService_Get toPayLoad post s domain rid) = Record w \<and>
      snd (snd (RecordsService_Get toPayLoad post s domain rid)) \<noteq> None)"
  by (simp add: RecordsService_Create_result RecordsService_Get_result)

theorem create_get_partial_record_witness:
  "Code failed_Status \<noteq> ''1'' \<and> sample_Record \<noteq> Record_zero \<and>
   fst (RecordsService_Create sample_toPayLoad
       (post_reply (sample_recordWrapper failed_Status) (Some sample_Response) None)
       sample_RecordsService ''6'' Record_zero) = sample_Record \<and>
   snd (snd (RecordsService_Create sample_toPayLoad
       (post_reply (sample_recordWrapper failed_Status) (Some sample_Response) None)
       sample_RecordsService ''6'' Record_zero)) \<noteq> None \<and>
   fst (RecordsService_Get sample_toPayLoad
       (post_reply (sample_recordWrapper failed_Status) (Some sample_Response) None)
       sample_RecordsService ''6'' ''16894439'') = sample_Record \<and>
   snd (snd (RecordsService_Get sample_toPayLoad
       (post_reply (sample_recordWrapper failed_Status) (Some sample_Response) None)
       sample_RecordsService ''6'' ''16894439'')) \<noteq> None"
  using create_get_partial_record
    [where toPayLoad = sample_toPayLoad
       and post = "post_reply (sample_recordWrapper failed_Status) (Some sample_Response) None"
       and s = sample_RecordsService and domain = "''6''" and rid = "''16894439''"
       and r = Record_zero]
  by (simp add: post_reply_def sample_recordWrapper_def failed_Status_def sample_Record_def
      Record_zero_def)

text \<open>
  Claim C10. In \<^verbatim>\<open>DomainsService.List\<close> and the six operations of \<^verbatim>\<open>RecordsService\<close>:
  when the transport gives no error and the status code is not "1", the descriptor
  returned is nil. A descriptor that is not nil is the transport's own, and is returned
  only when the status code is "1" or the transport gave an error.
\<close>

theorem status_failure_nil_response:
  "(\<forall>w res. postDL methodDomainList (DomainListRequest_toPayLOad toPayLoad dlr)
        domainListWrapper_zero = (w, res, None) \<longrightarrow>
      Code (domainListWrapper.Status w) \<noteq> ''1'' \<longrightarrow>
      fst (snd (DomainsService_List toPayLoad postDL dlr)) = None) \<and>
   (\<forall>w res. postRs methodRecordList (RecordListRequest_toPayLOad toPayLoad rlr)
        recordsWrapper_zero = (w, res, None) \<longrightarrow>
      Code (recordsWrapper.Status w) \<noteq> ''1'' \<longrightarrow>
      fst (snd (RecordsService_List toPayLoad postRs rlr)) = None) \<and>
   (\<forall>w res. postR methodRecordCreate (RecordsService_Create_payload toPayLoad s domain r)
        recordWrapper_zero = (w, res, None) \<longrightarrow>
      Code (recordWrapper.Status w) \<noteq> ''1'' \<longrightarrow>
      fst (snd (RecordsService_Create toPayLoad postR s domain r)) = None) \<and>
   (\<forall>w res. postR methodRecordInfo (RecordsService_id_payload toPayLoad s domain rid)
        recordWrapper_zero = (w, res, None) \<longrightarrow>
      Code (recordWrapper.Status w) \<noteq> ''1'' \<longrightarrow>
      fst (snd (RecordsService_Get toPayLoad postR s domain rid)) = None) \<and>
   (\<forall>w res. postR methodRecordModify (RecordsService_Update_payload toPayLoad s domain rid r)
        recordWrapper_zero = (w, res, None) \<longrightarrow>
      Code (recordWrapper.Status w) \<noteq> ''1'' \<longrightarrow>
      fst (snd (RecordsService_Update toPayLoad postR s domain rid r)) = None) \<and>
   (\<forall>w res. postR methodRecordRemark (RecordsService_Remark_payload toPayLoad s domain rid r)
        recordWrapper_zero = (w, res, None) \<longrightarrow>
      Code (recordWrapper.Status w) \<noteq> ''1'' \<longrightarrow>
      fst (snd (RecordsService_Remark toPayLoad postR s domain rid r)) = None) \<and>
   (\<forall>w res. postR methodRecordRemove (RecordsService_id_payload toPayLoad s domain rid)
        recordWrapper_zero = (w, res, None) \<longrightarrow>
      Code (recordWrapper.Status w) \<noteq> ''1'' \<longrightarrow>
      fst (RecordsService_Delete toPayLoad postR s domain rid) = None) \<and>
   (\<forall>w res err. postDL methodDomainList (DomainListRequest_toPayLOad toPayLoad dlr)
        domainListWrapper_zero = (w, res, err) \<longrightarrow>
      fst (snd (DomainsService_List toPayLoad postDL dlr)) \<noteq> None \<longrightarrow>
      fst (snd (DomainsService_List toPayLoad postDL dlr)) = res \<and>
      (err \<noteq> None \<or> Code (domainListWrapper.Status w) = ''1'')) \<and>
   (\<forall>w res err. postRs methodRecordList (RecordListRequest_toPayLOad toPayLoad rlr)
        recordsWrapper_zero = (w, res, err) \<longrightarrow>
      fst (snd (RecordsService_List toPayLoad postRs rlr)) \<noteq> None \<longrightarrow>
      fst (snd (RecordsService_List toPayLoad postRs rlr)) = res \<and>
      (err \<noteq> None \<or> Code (recordsWrapper.Status w) = ''1'')) \<and>
   (\<forall>w res err. postR methodRecordCreate (RecordsService_Create_payload toPayLoad s domain r)
        recordWrapper_zero = (w, res, err) \<longrightarrow>
      fst (snd (RecordsService_Create toPayLoad postR s domain r)) \<noteq> None \<longrightarrow>
      fst (snd (RecordsService_Create toPayLoad postR s domain r)) = res \<and>
      (err \<noteq> None \<or> Code (recordWrapper.Status w) = ''1'')) \<and>
   (\<forall>w res err. postR methodRecordInfo (RecordsService_id_payload toPayLoad s domain rid)
        recordWrapper_zero = (w, res, err) \<longrightarrow>
      fst (snd (RecordsService_Get toPayLoad postR s domain rid)) \<noteq> None \<longrightarrow>
      fst (snd (RecordsService_Get toPayLoad postR s domain rid)) = res \<and>
      (err \<noteq> None \<or> Code (recordWrapper.Status w) = ''1'')) \<and>
   (\<forall>w res err. postR methodRecordModify (RecordsService_Update_payload toPayLoad s domain rid r)
        recordWrapper_zero = (w, res, err) \<longrightarrow>
      fst (snd (RecordsService_Update toPayLoad postR s domain rid r)) \<noteq> None \<longrightarrow>
      fst (snd (RecordsService_Update toPayLoad postR s domain rid r)) = res \<and>
      (err \<noteq> None \<or> Code (recordWrapper.Status w) = ''1'')) \<and>
   (\<forall>w res err. postR methodRecordRemark (RecordsService_Remark_payload toPayLoad s domain rid r)
        recordWrapper_zero = (w, res, err) \<longrightarrow>
      fst (snd (RecordsService_Remark toPayLoad postR s domain rid r)) \<noteq> None \<longrightarrow>
      fst (snd (RecordsService_Remark toPayLoad postR s domain rid r)) = res \<and>
      (err \<noteq> None \<or> Code (recordWrapper.Status w) = ''1'')) \<and>
   (\<forall>w res err. postR methodRecordRemove (RecordsService_id_payload toPayLoad s domain rid)
        recordWrapper_zero = (w, res, err) \<longrightarrow>
      fst (RecordsService_Delete toPayLoad postR s domain rid) \<noteq> None \<longrightarrow>
      fst (RecordsService_Delete toPayLoad postR s domain rid) = res \<and>
      (err \<noteq> None \<or> Code (recordWrapper.Status w) = ''1''))"
  by (simp add: DomainsService_List_result RecordsService_List_result
      RecordsService_Create_result RecordsService_Get_result RecordsService_Update_result
      RecordsService_Remark_result RecordsService_Delete_result)

theorem status_failure_nil_response_witness:
  "Code failed_Status \<noteq> ''1'' \<and>
   fst (snd (DomainsService_List sample_toPayLoad
       (post_reply (sample_domainListWrapper failed_Status) (Some sample_Response) None)
       sample_DomainListRequest)) = None \<and>
   fst (snd (RecordsService_List sample_toPayLoad
       (post_reply (sample_recordsWrapper failed_Status) (Some sample_Response) None)
       (sample_RecordListRequest ''6'' ''''))) = None \<and>
   fst (snd (RecordsService_Create sample_toPayLoad
       (post_reply (sample_recordWrapper failed_Status) (Some sample_Response) None)
       sample_RecordsService ''6'' sample_Record)) = None \<and>
   fst (snd (RecordsService_Get sample_toPayLoad
       (post_reply (sample_recordWrapper failed_Status) (Some sample_Response) None)
       sample_RecordsService ''6'' ''16894439'')) = None \<and>
   fst (snd (RecordsService_Update sample_toPayLoad
       (post_reply (sample_recordWrapper failed_Status) (Some sample_Response) None)
       sample_RecordsService ''6'' ''16894439'' sample_Record)) = None \<and>
   fst (snd (RecordsService_Remark sample_toPayLoad
       (post_reply (sample_recordWrapper failed_Status) (Some sample_Response) None)
       sample_RecordsService ''6'' ''16894439'' sample_Record)) = None \<and>
   fst (RecordsService_Delete sample_toPayLoad
       (post_reply (sample_recordWrapper failed_Status) (Some sample_Response) None)
       sample_RecordsService ''6'' ''16894439'') = None \<and>
   Code success_Status = ''1'' \<and>
   fst (snd (DomainsService_List sample_toPayLoad
       (post_reply (sample_domainListWrapper success_Status) (Some sample_Response) None)
       sample_DomainListRequest)) = Some sample_Response \<and>
   fst (snd (RecordsService_List sample_toPayLoad
       (post_reply (sample_recordsWrapper success_Status) (Some sample_Response) None)
       (sample_RecordListRequest ''6'' ''''))) = Some sample_Response \<and>
   fst (snd (RecordsService_Create sample_toPayLoad
       (post_reply (sample_recordWrapper success_Status) (Some sample_Response) None)
       sample_RecordsService ''6'' sample_Record)) = Some sample_Response \<and>
   fst (snd (RecordsService_Get sample_toPayLoad
       (post_reply (sample_recordWrapper success_Status) (Some sample_Response) None)
       sample_RecordsService ''6'' ''16894439'')) = Some sample_Response \<and>
   fst (snd (RecordsService_Update sample_toPayLoad
       (post_reply (sample_recordWrapper success_Status) (Some sample_Response) None)
       sample_RecordsService ''6'' ''16894439'' sample_Record)) = Some sample_Response \<and>
   fst (snd (RecordsService_Remark sample_toPayLoad
       (post_reply (sample_recordWrapper success_Status) (Some sample_Response) None)
       sample_RecordsService ''6'' ''16894439'' sample_Record)) = Some sample_Response \<and>
   fst (RecordsService_Delete sample_toPayLoad
       (post_reply (sample_recordWrapper success_Status) (Some sample_Response) None)
       sample_RecordsService ''6'' ''16894439'') = Some sample_Response"
  using status_failure_nil_response
    [where toPayLoad = sample_toPayLoad
       and postDL = "post_reply (sample_domainListWrapper success_Status) (Some sample_Response) None"
       and postRs = "post_reply (sample_recordsWrapper success_Status) (Some sample_Response) None"
       and postR = "post_reply (sample_recordWrapper success_Status) (Some sample_Response) None"
       and dlr = sample_DomainListRequest
       and rlr = "sample_RecordListRequest ''6'' ''''" and s = sample_RecordsService
       and domain = "''6''" and rid = "''16894439''" and r = sample_Record]
    status_failure_nil_response
    [where toPayLoad = sample_toPayLoad
       and postDL = "post_reply (sample_domainListWrapper failed_Status) (Some sample_Response) None"
       and postRs = "post_reply (sample_recordsWrapper failed_Status) (Some sample_Response) None"
       and postR = "post_reply (sample_recordWrapper failed_Status) (Some sample_Response) None"
       and dlr = sample_DomainListRequest
       and rlr = "sample_RecordListRequest ''6'' ''''" and s = sample_RecordsService
       and domain = "''6''" and rid = "''16894439''" and r = sample_Record]
  by (simp add: post_reply_def sample_domainListWrapper_def
      sample_recordsWrapper_def sample_recordWrapper_def failed_Status_def success_Status_def
      DomainsService_List_def RecordsService_List_def RecordsService_Create_def
      RecordsService_Get_def RecordsService_Update_def RecordsService_Remark_def
      RecordsService_Delete_def)

end
